theory Spec2Isabelle
  imports Complex_Main "HOL-Library.Sublist"
begin

section \<open>Cookie sessions: the codec, rotation, expiry and rolling refresh of core.ts\<close>

text \<open>
  The development embeds \<^verbatim>\<open>initializeSession\<close> of \<^verbatim>\<open>src/lib/core.ts\<close> and the two
  helpers \<^verbatim>\<open>daysToMaxage\<close> and \<^verbatim>\<open>maxAgeToDateOfExpiry\<close> of \<^verbatim>\<open>utils\<close>.

  Conventions of the embedding.
  \<^item> Instants are milliseconds since the epoch (\<open>int\<close>), as \<^verbatim>\<open>Date.getTime()\<close> gives
    them. A JavaScript number is the rational it denotes, and the four arithmetic
    operators are parameters (\<open>fadd\<close>, \<open>fsub\<close>, \<open>fmul\<close>, \<open>fdiv\<close>), so that nothing is
    assumed about how the host rounds; comparison, \<^verbatim>\<open>Math.round\<close> and the cut of the
    \<^verbatim>\<open>Date\<close> constructor are exact on such numbers. \<^verbatim>\<open>NaN\<close>, the infinities and the
    range limit of \<^verbatim>\<open>Date\<close> are not represented.
  \<^item> Every handle operation receives the clock reading \<open>now\<close>; all reads of the clock
    made while one operation runs return that instant.
  \<^item> The closure variables \<^verbatim>\<open>sessionCookie\<close>, \<^verbatim>\<open>sessionData\<close>, \<^verbatim>\<open>setCookie\<close> and
    \<^verbatim>\<open>sessionState\<close> form the record \<open>state\<close>; an operation takes the state and
    returns its outcome together with the state it leaves behind, also when it throws.
  \<^item> What the file imports from elsewhere (\<^verbatim>\<open>encrypt\<close> and \<^verbatim>\<open>decrypt\<close> of zencrypt,
    the conversions between numbers and strings, the calendar arithmetic of
    \<^verbatim>\<open>Date.setDate\<close>, the arithmetic of numbers) is a parameter, gathered in the record
    \<open>prims\<close>. A primitive that
    throws returns \<open>None\<close>. A decryption that does not throw yields an object, as the
    declared type \<^verbatim>\<open>SessionType = Record<string, any>\<close> says; ids of secrets are
    integers.
  \<^item> \<^verbatim>\<open>serialize\<close> of \<^verbatim>\<open>cookie.js\<close> is not interpreted: an outgoing directive is the
    triple of arguments handed to it (record \<open>directive\<close>). Likewise the incoming
    value is \<^verbatim>\<open>cookies[options.key] || ''\<close>, the string that \<^verbatim>\<open>parse\<close> isolated.
\<close>

subsection \<open>Data\<close>

text \<open>
  \<^verbatim>\<open>SessionType & { expires?: Date }\<close>: the caller's keys and the reserved key
  \<^verbatim>\<open>expires\<close>. \<open>expires = None\<close> stands for a key that is missing or falsy, which is
  all the code asks of it before converting it with \<^verbatim>\<open>new Date(...).getTime()\<close>.
\<close>

record 'v sessionDataWithExpires =
  payload :: "(string \<times> 'v) list"
  expires :: "int option"

text \<open>The empty object \<^verbatim>\<open>{}\<close>.\<close>

definition emptyData :: "'v sessionDataWithExpires" where
  "emptyData = \<lparr>payload = [], expires = None\<rparr>"

text \<open>\<^verbatim>\<open>interface Secret { id: number; secret: BinaryLike }\<close>\<close>

record 'k Secret =
  id_s :: int
  secret :: 'k

text \<open>\<^verbatim>\<open>rolling: number | boolean\<close>\<close>

datatype rolling = RollingBool bool | RollingNum rat

record cookieOptions =
  maxAge :: rat
  httpOnly :: bool
  sameSite :: string
  path :: string
  domain :: "string option"
  secure :: bool

text \<open>The normalised \<^verbatim>\<open>options\<close> object of lines 19 to 34.\<close>

record 'k options =
  key :: string
  expiresInDays :: rat
  cookie :: cookieOptions
  rolling :: rolling
  secrets :: "'k Secret list"

text \<open>The arguments of one call of \<^verbatim>\<open>serialize(name, value, attributes)\<close>.\<close>

record directive =
  ser_name :: string
  ser_value :: string
  ser_httpOnly :: bool
  ser_path :: string
  ser_sameSite :: string
  ser_secure :: bool
  ser_domain :: "string option"
  ser_maxAge :: "rat option"
  ser_expires :: "int option"

record 'v state =
  sessionCookie :: string
  sessionData :: "'v sessionDataWithExpires option"
  setCookie :: "directive option"
  invalidDate :: bool
  shouldReEncrypt :: bool
  shouldDestroy :: bool
  shouldSendToClient :: bool

datatype error = TypeError | EncryptError

text \<open>
  The imported primitives. \<open>toNumber\<close> is \<^verbatim>\<open>Number(s)\<close> read as an identifier: \<open>None\<close>
  when the result is \<^verbatim>\<open>NaN\<close> or not an integer, a value that equals no secret's id.
  \<open>plusDays today days\<close> is the instant of \<^verbatim>\<open>today\<close> after
  \<^verbatim>\<open>setDate(today.getDate() + days)\<close>. \<open>fadd\<close>, \<open>fsub\<close>, \<open>fmul\<close> and \<open>fdiv\<close> are
  the operators \<^verbatim>\<open>+\<close>, \<^verbatim>\<open>-\<close>, \<^verbatim>\<open>*\<close> and \<^verbatim>\<open>/\<close> of JavaScript numbers: each yields the
  double nearest to the exact result, which is again a rational.
\<close>

record ('v, 'k) prims =
  encrypt :: "'v sessionDataWithExpires option \<Rightarrow> 'k \<Rightarrow> string option"
  decrypt :: "string \<Rightarrow> 'k \<Rightarrow> 'v sessionDataWithExpires option"
  toNumber :: "string \<Rightarrow> int option"
  toString :: "int \<Rightarrow> string"
  plusDays :: "int \<Rightarrow> rat \<Rightarrow> int"
  fadd :: "rat \<Rightarrow> rat \<Rightarrow> rat"
  fsub :: "rat \<Rightarrow> rat \<Rightarrow> rat"
  fmul :: "rat \<Rightarrow> rat \<Rightarrow> rat"
  fdiv :: "rat \<Rightarrow> rat \<Rightarrow> rat"

type_synonym ('r, 'v) outcome = "(error + 'r) \<times> 'v state"

subsection \<open>utils: daysToMaxage and maxAgeToDateOfExpiry\<close>

text \<open>The \<^verbatim>\<open>Date\<close> constructor drops the fraction of a millisecond, towards zero.\<close>

definition js_trunc :: "rat \<Rightarrow> int" where
  "js_trunc x = (if 0 \<le> x then \<lfloor>x\<rfloor> else \<lceil>x\<rceil>)"

definition daysToMaxage :: "('v, 'k) prims \<Rightarrow> int \<Rightarrow> rat \<Rightarrow> rat" where
  "daysToMaxage h today days =
     fsub h (fdiv h (of_int (plusDays h today days)) 1000) (fdiv h (of_int today) 1000)"

definition maxAgeToDateOfExpiry :: "('v, 'k) prims \<Rightarrow> int \<Rightarrow> rat \<Rightarrow> int" where
  "maxAgeToDateOfExpiry h now maxAge' = js_trunc (fadd h (of_int now) (fmul h maxAge' 1000))"

text \<open>
  \<^verbatim>\<open>new Date(expires).getTime() / 1000 - new Date().getTime() / 1000\<close>, the
  remaining lifetime in seconds that four places of core.ts compute.
\<close>

definition remainingSeconds :: "('v, 'k) prims \<Rightarrow> int \<Rightarrow> int \<Rightarrow> rat" where
  "remainingSeconds h e now = fsub h (fdiv h (of_int e) 1000) (fdiv h (of_int now) 1000)"

subsection \<open>String.prototype.split with a non-empty separator\<close>

text \<open>
  \<open>split_js sep acc s\<close> scans \<open>s\<close> from the left; \<open>acc\<close> is the piece collected since
  the last match. Matches do not overlap, and the piece after the last match is
  always emitted, so the result is never empty.
\<close>

fun split_js :: "string \<Rightarrow> string \<Rightarrow> string \<Rightarrow> string list" where
  "split_js sep acc [] = [acc]"
| "split_js sep acc (c # cs) =
     (if sep \<noteq> [] \<and> prefix sep (c # cs)
      then acc # split_js sep [] (drop (length sep - 1) cs)
      else split_js sep (acc @ [c]) cs)"

definition marker :: string where
  "marker = ''&id=''"

text \<open>\<open>has_sep sep s\<close>: the separator occurs somewhere in \<open>s\<close>.\<close>

fun has_sep :: "string \<Rightarrow> string \<Rightarrow> bool" where
  "has_sep sep [] = False"
| "has_sep sep (c # cs) = (prefix sep (c # cs) \<or> has_sep sep cs)"

text \<open>
  \<^verbatim>\<open>const [_sessionCookie, secret_id] = sessionCookie.split('&id=')\<close>: the first piece,
  and the second when there is one.
\<close>

definition payloadPart :: "string \<Rightarrow> string" where
  "payloadPart c = (case split_js marker [] c of [] \<Rightarrow> [] | a # _ \<Rightarrow> a)"

definition idPart :: "string \<Rightarrow> string option" where
  "idPart c = (case split_js marker [] c of a # b # _ \<Rightarrow> Some b | _ \<Rightarrow> None)"

subsection \<open>getSessionData and what it calls\<close>

text \<open>\<^verbatim>\<open>const decodeID = secret_id ? Number(secret_id) : 1\<close>\<close>

definition decodeID :: "('v, 'k) prims \<Rightarrow> string \<Rightarrow> int option" where
  "decodeID h c =
     (case idPart c of
        None \<Rightarrow> Some 1
      | Some t \<Rightarrow> if t = [] then Some 1 else toNumber h t)"

text \<open>
  Lines 76 to 79: the first secret of the ring with the decoded id, else the first
  secret of the ring; \<open>None\<close> is \<^verbatim>\<open>undefined\<close>, for an empty ring.
\<close>

definition resolveSecret :: "('v, 'k) prims \<Rightarrow> 'k options \<Rightarrow> string \<Rightarrow> 'k Secret option" where
  "resolveSecret h opts c =
     (case find (\<lambda>sec. Some (id_s sec) = decodeID h c) (secrets opts) of
        Some sec \<Rightarrow> Some sec
      | None \<Rightarrow> (case secrets opts of [] \<Rightarrow> None | s0 # _ \<Rightarrow> Some s0))"

definition checkSessionExpiry :: "int \<Rightarrow> 'v state \<Rightarrow> 'v state" where
  "checkSessionExpiry now s =
     (case sessionData s of
        None \<Rightarrow> s
      | Some d \<Rightarrow>
          (case expires d of
             None \<Rightarrow> s
           | Some e \<Rightarrow> if e < now then s\<lparr>invalidDate := True\<rparr> else s))"

text \<open>The closure \<^verbatim>\<open>encode\<close> of \<^verbatim>\<open>makeCookie\<close>, lines 106 to 110.\<close>

definition encode :: "('v, 'k) prims \<Rightarrow> 'k options \<Rightarrow> 'v state \<Rightarrow> error + string" where
  "encode h opts s =
     (case secrets opts of
        [] \<Rightarrow> Inl TypeError
      | s0 # _ \<Rightarrow>
          (case encrypt h (sessionData s) (secret s0) of
             None \<Rightarrow> Inl EncryptError
           | Some ct \<Rightarrow> Inr (ct @ marker @ toString h (id_s s0))))"

definition serializeArgs :: "'k options \<Rightarrow> string \<Rightarrow> rat option \<Rightarrow> int option \<Rightarrow> directive" where
  "serializeArgs opts v ma ex =
     \<lparr>ser_name = key opts, ser_value = v,
      ser_httpOnly = httpOnly (cookie opts), ser_path = path (cookie opts),
      ser_sameSite = sameSite (cookie opts), ser_secure = secure (cookie opts),
      ser_domain = domain (cookie opts), ser_maxAge = ma, ser_expires = ex\<rparr>"

definition makeCookie ::
  "('v, 'k) prims \<Rightarrow> 'k options \<Rightarrow> int \<Rightarrow> 'v state \<Rightarrow> rat \<Rightarrow> bool \<Rightarrow> error + directive" where
  "makeCookie h opts now s maxAge' destroy =
     (if destroy then Inr (serializeArgs opts ''0'' None (Some (now - 360000000)))
      else (case encode h opts s of
              Inl e \<Rightarrow> Inl e
            | Inr v \<Rightarrow> Inr (serializeArgs opts v (Some maxAge') None)))"

definition destroySession ::
  "('v, 'k) prims \<Rightarrow> 'k options \<Rightarrow> int \<Rightarrow> 'v state \<Rightarrow> (unit, 'v) outcome" where
  "destroySession h opts now s =
     (let s1 = s\<lparr>sessionData := None\<rparr> in
      case makeCookie h opts now s1 0 True of
        Inl e \<Rightarrow> (Inl e, s1)
      | Inr c \<Rightarrow> (Inr (), s1\<lparr>setCookie := Some c, shouldSendToClient := True\<rparr>))"

text \<open>The state that \<open>destroySession\<close> leaves behind, in closed form.\<close>

definition destroyed :: "'k options \<Rightarrow> int \<Rightarrow> 'v state \<Rightarrow> 'v state" where
  "destroyed opts now s =
     s\<lparr>sessionData := None,
       setCookie := Some (serializeArgs opts ''0'' None (Some (now - 360000000))),
       shouldSendToClient := True\<rparr>"

text \<open>
  The maximal age that \<^verbatim>\<open>update\<close>, \<^verbatim>\<open>set\<close> and \<^verbatim>\<open>reEncryptSession\<close> choose:
  \<^verbatim>\<open>options.cookie.maxAge\<close>, replaced by the remaining lifetime
  \<^verbatim>\<open>if (sessionData?.expires)\<close>.
\<close>

definition chosenMaxAge :: "('v, 'k) prims \<Rightarrow> 'k options \<Rightarrow> int \<Rightarrow> 'v state \<Rightarrow> rat" where
  "chosenMaxAge h opts now s =
     (case sessionData s of
        None \<Rightarrow> maxAge (cookie opts)
      | Some d \<Rightarrow>
          (case expires d of
             None \<Rightarrow> maxAge (cookie opts)
           | Some e \<Rightarrow> remainingSeconds h e now))"

definition reEncryptSession ::
  "('v, 'k) prims \<Rightarrow> 'k options \<Rightarrow> int \<Rightarrow> 'v state \<Rightarrow> (unit, 'v) outcome" where
  "reEncryptSession h opts now s =
     (case sessionData s of
        None \<Rightarrow> (Inr (), s)
      | Some d \<Rightarrow>
          (let maxAge' = chosenMaxAge h opts now s;
               s1 = s\<lparr>sessionData := Some d, shouldSendToClient := True\<rparr>
           in case makeCookie h opts now s1 maxAge' False of
                Inl e \<Rightarrow> (Inl e, s1)
              | Inr c \<Rightarrow> (Inr (), s1\<lparr>setCookie := Some c\<rparr>)))"

text \<open>
  \<^verbatim>\<open>getSessionData\<close>. Everything from the call of \<^verbatim>\<open>decrypt\<close> on runs inside
  \<^verbatim>\<open>try\<close>: reading \<^verbatim>\<open>secret.secret\<close> of an undefined secret, a decryption that throws
  and a re-encryption that throws all end in \<^verbatim>\<open>destroySession\<close>, and the function
  then returns \<^verbatim>\<open>undefined\<close>.
\<close>

definition getSessionData ::
  "('v, 'k) prims \<Rightarrow> 'k options \<Rightarrow> int \<Rightarrow> 'v state
     \<Rightarrow> ('v sessionDataWithExpires option, 'v) outcome" where
  "getSessionData h opts now s =
     (let c = sessionCookie s; sc = payloadPart c in
      if sc = [] then (Inr None, s)
      else
        (let s1 = s\<lparr>sessionCookie := sc\<rparr>;
             caught = (\<lambda>s'. case destroySession h opts now s' of
                               (Inl e, s'') \<Rightarrow> (Inl e, s'')
                             | (Inr _, s'') \<Rightarrow> (Inr None, s''))
         in case resolveSecret h opts c of
              None \<Rightarrow> caught s1
            | Some sec \<Rightarrow>
                (case decrypt h sc (secret sec) of
                   None \<Rightarrow> caught s1
                 | Some d \<Rightarrow>
                     (let s2 = checkSessionExpiry now (s1\<lparr>sessionData := Some d\<rparr>) in
                      case secrets opts of
                        [] \<Rightarrow> caught s2
                      | s0 # _ \<Rightarrow>
                          if Some (id_s s0) \<noteq> decodeID h c
                          then (case reEncryptSession h opts now s2 of
                                  (Inl e, s3) \<Rightarrow> caught s3
                                | (Inr _, s3) \<Rightarrow> (Inr (sessionData s3), s3))
                          else (Inr (sessionData s2), s2)))))"

subsection \<open>The session handle\<close>

text \<open>\<^verbatim>\<open>get data()\<close>\<close>

definition session_data :: "'v state \<Rightarrow> 'v sessionDataWithExpires" where
  "session_data s =
     (case sessionData s of
        None \<Rightarrow> emptyData
      | Some d \<Rightarrow> if \<not> invalidDate s \<and> \<not> shouldDestroy s then d else emptyData)"

text \<open>
  \<^verbatim>\<open>set(data?)\<close>; \<open>None\<close> is a call without argument, whose spread is the empty
  object.
\<close>

definition session_set ::
  "('v, 'k) prims \<Rightarrow> 'k options \<Rightarrow> int \<Rightarrow> 'v sessionDataWithExpires option \<Rightarrow> 'v state
     \<Rightarrow> ('v sessionDataWithExpires, 'v) outcome" where
  "session_set h opts now data s =
     (let maxAge' = chosenMaxAge h opts now s;
          d' = (case data of None \<Rightarrow> emptyData | Some d \<Rightarrow> d)
                 \<lparr>expires := Some (maxAgeToDateOfExpiry h now maxAge')\<rparr>;
          s1 = s\<lparr>sessionData := Some d', shouldSendToClient := True\<rparr>
      in case makeCookie h opts now s1 maxAge' False of
           Inl e \<Rightarrow> (Inl e, s1)
         | Inr c \<Rightarrow> (Inr d', s1\<lparr>setCookie := Some c\<rparr>))"

text \<open>
  \<^verbatim>\<open>update(updateFn)\<close>. The callback is handed the stored object itself (as stored,
  without the filter of the \<^verbatim>\<open>data\<close> accessor) and \<^verbatim>\<open>sessionData?.expires\<close> is read
  after it has returned, so what it writes on that object counts: the stored object
  becomes \<open>inPlace\<close> of itself, and the value returned is \<open>returned\<close> of the argument.
  A callback that only computes a value has the identity for \<open>inPlace\<close>. Nothing can
  be written on \<^verbatim>\<open>undefined\<close>. The callback does not throw.
\<close>

record 'v updateFn =
  inPlace :: "'v sessionDataWithExpires \<Rightarrow> 'v sessionDataWithExpires"
  returned :: "'v sessionDataWithExpires option \<Rightarrow> 'v sessionDataWithExpires"

definition session_update ::
  "('v, 'k) prims \<Rightarrow> 'k options \<Rightarrow> int \<Rightarrow> 'v updateFn \<Rightarrow> 'v state
     \<Rightarrow> ('v sessionDataWithExpires, 'v) outcome" where
  "session_update h opts now updateFn s =
     (let sd = returned updateFn (sessionData s);
          s0 = s\<lparr>sessionData := map_option (inPlace updateFn) (sessionData s)\<rparr>;
          maxAge' = chosenMaxAge h opts now s0;
          d' = sd\<lparr>expires := Some (maxAgeToDateOfExpiry h now maxAge')\<rparr>;
          s1 = s0\<lparr>sessionData := Some d', shouldSendToClient := True\<rparr>
      in case makeCookie h opts now s1 maxAge' False of
           Inl e \<Rightarrow> (Inl e, s1)
         | Inr c \<Rightarrow> (Inr d', s1\<lparr>setCookie := Some c\<rparr>))"

text \<open>
  \<^verbatim>\<open>expiresInDays ? expiresInDays : options.expiresInDays\<close>: a missing override and
  the override 0 are both falsy.
\<close>

definition refreshDays :: "'k options \<Rightarrow> rat option \<Rightarrow> rat" where
  "refreshDays opts override =
     (case override of
        None \<Rightarrow> expiresInDays opts
      | Some n \<Rightarrow> if n \<noteq> 0 then n else expiresInDays opts)"

definition session_refresh ::
  "('v, 'k) prims \<Rightarrow> 'k options \<Rightarrow> int \<Rightarrow> rat option \<Rightarrow> 'v state \<Rightarrow> (bool, 'v) outcome" where
  "session_refresh h opts now override s =
     (case sessionData s of
        None \<Rightarrow> (Inr False, s)
      | Some d \<Rightarrow>
          (let newMaxAge = daysToMaxage h now (refreshDays opts override);
               s1 = s\<lparr>sessionData := Some (d\<lparr>expires := Some (maxAgeToDateOfExpiry h now newMaxAge)\<rparr>)\<rparr>
           in case makeCookie h opts now s1 newMaxAge False of
                Inl e \<Rightarrow> (Inl e, s1)
              | Inr c \<Rightarrow> (Inr True, s1\<lparr>setCookie := Some c, shouldSendToClient := True\<rparr>)))"

definition session_destroy ::
  "('v, 'k) prims \<Rightarrow> 'k options \<Rightarrow> int \<Rightarrow> 'v state \<Rightarrow> (bool, 'v) outcome" where
  "session_destroy h opts now s =
     (case destroySession h opts now s of
        (Inl e, s') \<Rightarrow> (Inl e, s')
      | (Inr _, s') \<Rightarrow> (Inr True, s'))"

subsection \<open>Rolling refresh and initializeSession\<close>

text \<open>\<^verbatim>\<open>if (options?.rolling)\<close>: \<^verbatim>\<open>true\<close> and every number but 0 are truthy.\<close>

definition rollingActive :: "rolling \<Rightarrow> bool" where
  "rollingActive r = (case r of RollingBool b \<Rightarrow> b | RollingNum p \<Rightarrow> p \<noteq> 0)"

text \<open>\<^verbatim>\<open>_sd?.expires\<close>\<close>

definition storedExpires :: "'v state \<Rightarrow> int option" where
  "storedExpires s = (case sessionData s of None \<Rightarrow> None | Some d \<Rightarrow> expires d)"

text \<open>The value of an awaited \<^verbatim>\<open>session.refresh()\<close> is dropped.\<close>

definition dropValue :: "(bool, 'v) outcome \<Rightarrow> (unit, 'v) outcome" where
  "dropValue r = (case r of (Inl e, s) \<Rightarrow> (Inl e, s) | (Inr _, s) \<Rightarrow> (Inr (), s))"

text \<open>
  Lines 195 to 212. \<^verbatim>\<open>Math.round\<close> rounds halves upwards, as \<open>round\<close> does; the
  threshold \<^verbatim>\<open>(options.rolling / 100) * options.cookie.maxAge\<close> is computed with the
  operators of the host, and two numbers are compared as they are.
\<close>

definition rollingRefresh ::
  "('v, 'k) prims \<Rightarrow> 'k options \<Rightarrow> int \<Rightarrow> 'v state \<Rightarrow> (unit, 'v) outcome" where
  "rollingRefresh h opts now s =
     (if rollingActive (rolling opts) then
        (case (rolling opts, storedExpires s) of
           (RollingNum p, Some e) \<Rightarrow>
             (let differenceInSeconds = round (remainingSeconds h e now) in
              if of_int differenceInSeconds < fmul h (fdiv h p 100) (maxAge (cookie opts))
              then dropValue (session_refresh h opts now None s)
              else (Inr (), s))
         | _ \<Rightarrow> dropValue (session_refresh h opts now None s))
      else (Inr (), s))"

definition initialState :: "string \<Rightarrow> 'v state" where
  "initialState c =
     \<lparr>sessionCookie = c, sessionData = None, setCookie = None, invalidDate = False,
      shouldReEncrypt = False, shouldDestroy = False, shouldSendToClient = False\<rparr>"

text \<open>
  \<^verbatim>\<open>initializeSession\<close> from the isolated cookie value on: decode, then the rolling
  refresh. The result is the state that the returned handle closes over.
\<close>

definition initializeSession ::
  "('v, 'k) prims \<Rightarrow> 'k options \<Rightarrow> int \<Rightarrow> string \<Rightarrow> (unit, 'v) outcome" where
  "initializeSession h opts now c =
     (case getSessionData h opts now (initialState c) of
        (Inl e, s) \<Rightarrow> (Inl e, s)
      | (Inr _, s) \<Rightarrow> rollingRefresh h opts now s)"

subsection \<open>A sample deployment\<close>

text \<open>
  Concrete primitives and options on which the theorems below are run: a ring of two
  secrets with the current one first, the defaults of the configuration, and a toy
  cipher that knows four payloads (a session that lives until 1700003600000, one that
  died at 1699999999000, one that lives until 1700060479600 and one without
  \<^verbatim>\<open>expires\<close>). The sample instant is 1700000000000. The sample arithmetic is exact; on
  the numbers that the sample runs meet, double precision gives the same outcomes.
\<close>

definition demoData :: "int option \<Rightarrow> string sessionDataWithExpires" where
  "demoData e = \<lparr>payload = [(''role'', ''admin'')], expires = e\<rparr>"

definition demoTag :: "string sessionDataWithExpires \<Rightarrow> string" where
  "demoTag d =
     (case expires d of
        None \<Rightarrow> ''bare''
      | Some e \<Rightarrow> if e = 1700003600000 then ''live''
                  else if e = 1699999999000 then ''dead''
                  else if e = 1700060479600 then ''edge''
                  else ''misc'')"

definition demoPrims :: "(string, string) prims" where
  "demoPrims =
     \<lparr>encrypt = (\<lambda>d k. case d of None \<Rightarrow> None | Some x \<Rightarrow> Some (k @ ''/'' @ demoTag x)),
      decrypt = (\<lambda>c k. if c = k @ ''/live'' then Some (demoData (Some 1700003600000))
                        else if c = k @ ''/dead'' then Some (demoData (Some 1699999999000))
                        else if c = k @ ''/edge'' then Some (demoData (Some 1700060479600))
                        else if c = k @ ''/bare'' then Some (demoData None)
                        else None),
      toNumber = (\<lambda>t. if t = ''1'' then Some 1 else if t = ''2'' then Some 2 else None),
      toString = (\<lambda>i. if i = 1 then ''1'' else if i = 2 then ''2'' else ''9''),
      plusDays = (\<lambda>today days. today + \<lfloor>days\<rfloor> * 86400000),
      fadd = (\<lambda>x y. x + y), fsub = (\<lambda>x y. x - y),
      fmul = (\<lambda>x y. x * y), fdiv = (\<lambda>x y. x / y)\<rparr>"

definition demoOptions :: "rolling \<Rightarrow> string options" where
  "demoOptions r =
     \<lparr>key = ''kit.session'', expiresInDays = 7,
      cookie = \<lparr>maxAge = 604800, httpOnly = True, sameSite = ''lax'', path = ''/'',
                domain = None, secure = True\<rparr>,
      rolling = r,
      secrets = [\<lparr>id_s = 2, secret = ''new''\<rparr>, \<lparr>id_s = 1, secret = ''old''\<rparr>]\<rparr>"


text \<open>
  The state in which initialization leaves the handle when the cookie holds the dead
  session under the current secret and rolling is off.
\<close>

definition deadState :: "string state" where
  "deadState =
     (initialState ''new/dead'')
       \<lparr>sessionData := Some (demoData (Some 1699999999000)), invalidDate := True\<rparr>"

section \<open>Properties\<close>

subsection \<open>The arithmetic of the sample deployment\<close>

lemma demo_arith [simp]:
  "fadd demoPrims x y = x + y"
  "fsub demoPrims x y = x - y"
  "fmul demoPrims x y = x * y"
  "fdiv demoPrims x y = x / y"
  by (simp_all add: demoPrims_def)

subsection \<open>Splitting at the marker\<close>

lemma split_js_nonempty: "split_js sep acc s \<noteq> []"
  by (induction sep acc s rule: split_js.induct) auto

lemma prefix_marker_append:
  "\<not> has_sep marker c \<Longrightarrow> c \<noteq> [] \<Longrightarrow> \<not> prefix marker (c @ marker @ t)"
  by (cases c; cases "tl c"; cases "tl (tl c)"; cases "tl (tl (tl c))")
     (auto simp: marker_def)

lemma split_js_first:
  "\<not> has_sep marker c \<Longrightarrow> split_js marker acc (c @ marker @ t) = (acc @ c) # split_js marker [] t"
proof (induction c arbitrary: acc)
  case Nil
  then show ?case by (simp add: marker_def)
next
  case (Cons x xs)
  have np: "\<not> prefix marker ((x # xs) @ marker @ t)"
    using Cons.prems prefix_marker_append[of "x # xs" t] by simp
  have "\<not> has_sep marker xs" using Cons.prems by simp
  from Cons.IH[OF this, of "acc @ [x]"] np show ?case by simp
qed

lemma split_js_none:
  "\<not> has_sep marker c \<Longrightarrow> split_js marker acc c = [acc @ c]"
  by (induction c arbitrary: acc) auto

lemma no_marker_parts:
  "\<not> has_sep marker c \<Longrightarrow> payloadPart c = c \<and> idPart c = None"
  by (simp add: payloadPart_def idPart_def split_js_none)

subsection \<open>Decoding\<close>

lemma resolveSecret_known:
  assumes "\<exists>sec \<in> set (secrets opts). Some (id_s sec) = decodeID h c"
  shows "\<exists>sec. resolveSecret h opts c = Some sec \<and> sec \<in> set (secrets opts) \<and>
               Some (id_s sec) = decodeID h c"
proof -
  from assms obtain sec where
    f: "find (\<lambda>sec. Some (id_s sec) = decodeID h c) (secrets opts) = Some sec"
    by (cases "find (\<lambda>sec. Some (id_s sec) = decodeID h c) (secrets opts)")
       (auto simp: find_None_iff)
  then have "sec \<in> set (secrets opts) \<and> Some (id_s sec) = decodeID h c"
    by (auto simp: find_Some_iff)
  with f show ?thesis by (simp add: resolveSecret_def)
qed

lemma resolveSecret_unknown:
  assumes "\<forall>sec \<in> set (secrets opts). Some (id_s sec) \<noteq> decodeID h c"
  shows "resolveSecret h opts c = (case secrets opts of [] \<Rightarrow> None | s0 # _ \<Rightarrow> Some s0)"
proof -
  from assms have "find (\<lambda>sec. Some (id_s sec) = decodeID h c) (secrets opts) = None"
    by (simp add: find_None_iff)
  then show ?thesis by (simp add: resolveSecret_def)
qed

lemma resolveSecret_ring:
  "resolveSecret h opts c = Some sec \<Longrightarrow> secrets opts \<noteq> []"
  by (auto simp: resolveSecret_def split: option.splits list.splits)

lemma getSessionData_empty:
  "payloadPart (sessionCookie s) = [] \<Longrightarrow> getSessionData h opts now s = (Inr None, s)"
  by (simp add: getSessionData_def Let_def)

lemma destroySession_eq:
  "destroySession h opts now s =
     (Inr (), s\<lparr>sessionData := None,
                setCookie := Some (serializeArgs opts ''0'' None (Some (now - 360000000))),
                shouldSendToClient := True\<rparr>)"
  by (simp add: destroySession_def makeCookie_def Let_def)

lemma getSessionData_failure:
  assumes "sessionCookie s = c" and "payloadPart c \<noteq> []"
    and "case resolveSecret h opts c of
           None \<Rightarrow> True
         | Some sec \<Rightarrow> decrypt h (payloadPart c) (secret sec) = None"
  shows "getSessionData h opts now s =
     (Inr None, s\<lparr>sessionCookie := payloadPart c, sessionData := None,
                  setCookie := Some (serializeArgs opts ''0'' None (Some (now - 360000000))),
                  shouldSendToClient := True\<rparr>)"
  using assms
  by (simp add: getSessionData_def Let_def destroySession_eq split: option.splits)

lemma rollingRefresh_no_data:
  "sessionData s = None \<Longrightarrow> rollingRefresh h opts now s = (Inr (), s)"
  by (simp add: rollingRefresh_def storedExpires_def session_refresh_def dropValue_def
      split: rolling.splits)

lemma getSessionData_decrypted:
  assumes "sessionCookie s = c" and "payloadPart c \<noteq> []"
    and "resolveSecret h opts c = Some sec"
    and "decrypt h (payloadPart c) (secret sec) = Some d"
    and "secrets opts = s0 # rest"
  shows "getSessionData h opts now s =
     (let s2 = checkSessionExpiry now (s\<lparr>sessionCookie := payloadPart c, sessionData := Some d\<rparr>)
      in if Some (id_s s0) \<noteq> decodeID h c
         then (case reEncryptSession h opts now s2 of
                 (Inl e, s3) \<Rightarrow> (Inr None, destroyed opts now s3)
               | (Inr u, s3) \<Rightarrow> (Inr (sessionData s3), s3))
         else (Inr (sessionData s2), s2))"
  using assms
  by (simp add: getSessionData_def Let_def destroySession_eq destroyed_def
      split: prod.splits sum.splits)

lemma checkSessionExpiry_data [simp]:
  "sessionData (checkSessionExpiry now s) = sessionData s"
  "setCookie (checkSessionExpiry now s) = setCookie s"
  by (simp_all add: checkSessionExpiry_def split: option.splits)

text \<open>
  Claim C3 (decode-failure recovery). When the incoming cookie has a non-empty payload
  portion and its decryption under the resolved secret fails (or no secret can be
  resolved), \<open>initializeSession\<close> does not throw: it returns normally, the stored data
  is cleared, the \<open>data\<close> accessor returns the empty payload, and the scheduled
  directive is the destroy sentinel: value \<open>''0''\<close>, no max-age, an \<open>expires\<close> attribute
  in the past. This holds for every setting of \<open>rolling\<close>.
\<close>

theorem C3_decode_failure_recovery:
  assumes "payloadPart c \<noteq> []"
    and "case resolveSecret h opts c of
           None \<Rightarrow> True
         | Some sec \<Rightarrow> decrypt h (payloadPart c) (secret sec) = None"
  shows "let r = initializeSession h opts now c in
           fst r = Inr () \<and>
           sessionData (snd r) = None \<and>
           session_data (snd r) = emptyData \<and>
           setCookie (snd r) = Some (serializeArgs opts ''0'' None (Some (now - 360000000))) \<and>
           shouldSendToClient (snd r) \<and>
           (\<exists>d. setCookie (snd r) = Some d \<and> ser_value d = ''0'' \<and> ser_maxAge d = None \<and>
                (\<exists>t. ser_expires d = Some t \<and> t < now))"
proof -
  have g: "getSessionData h opts now (initialState c) =
     (Inr None, (initialState c)\<lparr>sessionCookie := payloadPart c, sessionData := None,
        setCookie := Some (serializeArgs opts ''0'' None (Some (now - 360000000))),
        shouldSendToClient := True\<rparr>)"
    using assms getSessionData_failure[of "initialState c" c h opts now]
    by (simp add: initialState_def)
  show ?thesis
    by (simp add: initializeSession_def g rollingRefresh_no_data session_data_def
        serializeArgs_def Let_def)
qed

theorem C3_decode_failure_recovery_witness:
  "payloadPart ''garbage&id=2'' \<noteq> [] \<and>
   resolveSecret demoPrims (demoOptions (RollingNum 10)) ''garbage&id=2''
     = Some \<lparr>id_s = 2, secret = ''new''\<rparr> \<and>
   decrypt demoPrims (payloadPart ''garbage&id=2'') ''new'' = None \<and>
   fst (initializeSession demoPrims (demoOptions (RollingNum 10)) 1700000000000 ''garbage&id=2'') = Inr () \<and>
   setCookie (snd (initializeSession demoPrims (demoOptions (RollingNum 10)) 1700000000000 ''garbage&id=2''))
     = Some (serializeArgs (demoOptions (RollingNum 10)) ''0'' None (Some 1699640000000))"
proof -
  have p: "payloadPart ''garbage&id=2'' = ''garbage''"
    by (simp add: payloadPart_def marker_def)
  have r: "resolveSecret demoPrims (demoOptions (RollingNum 10)) ''garbage&id=2''
             = Some \<lparr>id_s = 2, secret = ''new''\<rparr>"
    by (simp add: resolveSecret_def decodeID_def idPart_def marker_def demoPrims_def demoOptions_def)
  have d: "decrypt demoPrims ''garbage'' ''new'' = None"
    by (simp add: demoPrims_def)
  show ?thesis
    using C3_decode_failure_recovery[of "''garbage&id=2''" demoPrims "demoOptions (RollingNum 10)" 1700000000000]
    by (simp add: p r d Let_def)
qed

text \<open>
  Claim C10 (an incoming destroy sentinel is destroyed again). The value \<open>''0''\<close> gets no
  special treatment: it has no marker, so its payload portion is \<open>''0''\<close> itself (not
  empty) and the decoded id is 1. When the decryption of \<open>''0''\<close> under the resolved
  secret fails (or the ring is empty), initialization runs the destroy path although
  the caller invoked no operation: it returns normally, the \<open>data\<close> accessor gives the
  empty payload and a fresh destroy-sentinel directive is scheduled.
\<close>

theorem C10_incoming_sentinel_redestroyed:
  assumes "case resolveSecret h opts ''0'' of
             None \<Rightarrow> True
           | Some sec \<Rightarrow> decrypt h ''0'' (secret sec) = None"
  shows "payloadPart ''0'' = ''0'' \<and> decodeID h ''0'' = Some 1 \<and>
         (let r = initializeSession h opts now ''0'' in
            fst r = Inr () \<and>
            sessionData (snd r) = None \<and>
            session_data (snd r) = emptyData \<and>
            setCookie (snd r) = Some (serializeArgs opts ''0'' None (Some (now - 360000000))) \<and>
            shouldSendToClient (snd r))"
proof -
  have nm: "\<not> has_sep marker ''0''" by (simp add: marker_def)
  then have p: "payloadPart ''0'' = ''0''" and i: "decodeID h ''0'' = Some 1"
    by (simp_all add: no_marker_parts decodeID_def)
  have g: "getSessionData h opts now (initialState ''0'')
             = (Inr None, destroyed opts now ((initialState ''0'')\<lparr>sessionCookie := ''0''\<rparr>))"
    using assms p getSessionData_failure[of "initialState ''0''" "''0''" h opts now]
    by (simp add: initialState_def destroyed_def cong: option.case_cong)
  show ?thesis
    by (simp add: p i initializeSession_def g rollingRefresh_no_data session_data_def
        destroyed_def Let_def)
qed

theorem C10_incoming_sentinel_redestroyed_witness:
  "resolveSecret demoPrims (demoOptions (RollingBool True)) ''0'' = Some \<lparr>id_s = 1, secret = ''old''\<rparr> \<and>
   decrypt demoPrims ''0'' ''old'' = None \<and>
   initializeSession demoPrims (demoOptions (RollingBool True)) 1700000000000 ''0''
     = (Inr (), destroyed (demoOptions (RollingBool True)) 1700000000000 (initialState ''0''))"
proof -
  let ?O = "demoOptions (RollingBool True)"
  have nm: "\<not> has_sep marker ''0''" by (simp add: marker_def)
  have i: "decodeID demoPrims ''0'' = Some 1"
    using nm by (simp add: no_marker_parts decodeID_def)
  have r: "resolveSecret demoPrims ?O ''0'' = Some \<lparr>id_s = 1, secret = ''old''\<rparr>"
    by (simp add: resolveSecret_def i demoOptions_def)
  have d: "decrypt demoPrims ''0'' ''old'' = None"
    by (simp add: demoPrims_def)
  have "initializeSession demoPrims ?O 1700000000000 ''0''
          = (Inr (), destroyed ?O 1700000000000 (initialState ''0''))"
    using C10_incoming_sentinel_redestroyed[of demoPrims ?O 1700000000000] r d
    by (auto simp: Let_def destroyed_def initialState_def prod_eq_iff initializeSession_def
         getSessionData_def destroySession_eq rollingRefresh_no_data)
  with r d show ?thesis by simp
qed

subsection \<open>Resolution of the secret\<close>

lemma demo_parts:
  "payloadPart '''' = ''''"
  "payloadPart ''old/live'' = ''old/live''"
  "payloadPart ''new/live&id=2'' = ''new/live''"
  "payloadPart ''new/live&id=7'' = ''new/live''"
  "idPart ''old/live'' = None"
  "idPart ''new/live&id=2'' = Some ''2''"
  "idPart ''new/live&id=7'' = Some ''7''"
  by (simp_all add: payloadPart_def idPart_def marker_def)

text \<open>
  Claim C8 (decode id resolution). For a state whose incoming cookie is \<open>c\<close>:
  \<^item> an empty payload portion yields no session and leaves the state as it was (no
    failure, no directive);
  \<^item> without the marker the whole string is the payload and the id is 1;
  \<^item> an id that a secret of the ring carries resolves to such a secret;
  \<^item> an id that no secret carries resolves to the first secret of the ring;
  \<^item> decryption is attempted with the resolved secret: when it fails the session is
    destroyed, and when it yields \<open>d\<close> under the current id, \<open>d\<close> is stored and returned
    after the expiry check.
\<close>

theorem C8_decode_id_resolution:
  assumes "sessionCookie s = c"
  shows "(payloadPart c = [] \<longrightarrow> getSessionData h opts now s = (Inr None, s)) \<and>
         (\<not> has_sep marker c \<longrightarrow> payloadPart c = c \<and> decodeID h c = Some 1) \<and>
         ((\<exists>sec \<in> set (secrets opts). Some (id_s sec) = decodeID h c) \<longrightarrow>
            (\<exists>sec. resolveSecret h opts c = Some sec \<and> sec \<in> set (secrets opts) \<and>
                   Some (id_s sec) = decodeID h c)) \<and>
         ((\<forall>sec \<in> set (secrets opts). Some (id_s sec) \<noteq> decodeID h c) \<longrightarrow>
            resolveSecret h opts c = (case secrets opts of [] \<Rightarrow> None | s0 # _ \<Rightarrow> Some s0)) \<and>
         (\<forall>sec. payloadPart c \<noteq> [] \<and> resolveSecret h opts c = Some sec \<and>
                decrypt h (payloadPart c) (secret sec) = None \<longrightarrow>
            getSessionData h opts now s
              = (Inr None, destroyed opts now (s\<lparr>sessionCookie := payloadPart c\<rparr>))) \<and>
         (\<forall>sec d s0 rest. payloadPart c \<noteq> [] \<and> resolveSecret h opts c = Some sec \<and>
                decrypt h (payloadPart c) (secret sec) = Some d \<and>
                secrets opts = s0 # rest \<and> Some (id_s s0) = decodeID h c \<longrightarrow>
            getSessionData h opts now s
              = (Inr (Some d),
                 checkSessionExpiry now
                   (s\<lparr>sessionCookie := payloadPart c, sessionData := Some d\<rparr>)))"
proof (intro conjI impI allI)
  assume "payloadPart c = []"
  then show "getSessionData h opts now s = (Inr None, s)"
    using assms getSessionData_empty[of s h opts now] by simp
next
  assume "\<not> has_sep marker c"
  then show "payloadPart c = c" by (simp add: no_marker_parts)
next
  assume "\<not> has_sep marker c"
  then show "decodeID h c = Some 1" by (simp add: decodeID_def no_marker_parts)
next
  assume "\<exists>sec \<in> set (secrets opts). Some (id_s sec) = decodeID h c"
  then show "\<exists>sec. resolveSecret h opts c = Some sec \<and> sec \<in> set (secrets opts) \<and>
                   Some (id_s sec) = decodeID h c"
    by (rule resolveSecret_known)
next
  assume "\<forall>sec \<in> set (secrets opts). Some (id_s sec) \<noteq> decodeID h c"
  then show "resolveSecret h opts c = (case secrets opts of [] \<Rightarrow> None | s0 # _ \<Rightarrow> Some s0)"
    by (rule resolveSecret_unknown)
next
  fix sec
  assume "payloadPart c \<noteq> [] \<and> resolveSecret h opts c = Some sec \<and>
          decrypt h (payloadPart c) (secret sec) = None"
  then show "getSessionData h opts now s
               = (Inr None, destroyed opts now (s\<lparr>sessionCookie := payloadPart c\<rparr>))"
    using assms getSessionData_failure[of s c h opts now] by (simp add: destroyed_def)
next
  fix sec d s0 rest
  assume "payloadPart c \<noteq> [] \<and> resolveSecret h opts c = Some sec \<and>
          decrypt h (payloadPart c) (secret sec) = Some d \<and>
          secrets opts = s0 # rest \<and> Some (id_s s0) = decodeID h c"
  then show "getSessionData h opts now s
               = (Inr (Some d),
                  checkSessionExpiry now
                    (s\<lparr>sessionCookie := payloadPart c, sessionData := Some d\<rparr>))"
    using assms getSessionData_decrypted[of s c h opts sec d s0 rest now]
    by (simp add: Let_def)
qed

theorem C8_decode_id_resolution_witness:
  "getSessionData demoPrims (demoOptions (RollingBool False)) 1700000000000 (initialState '''')
     = (Inr None, initialState '''') \<and>
   \<not> has_sep marker ''old/live'' \<and> decodeID demoPrims ''old/live'' = Some 1 \<and>
   resolveSecret demoPrims (demoOptions (RollingBool False)) ''old/live''
     = Some \<lparr>id_s = 1, secret = ''old''\<rparr> \<and>
   decodeID demoPrims ''new/live&id=7'' = None \<and>
   resolveSecret demoPrims (demoOptions (RollingBool False)) ''new/live&id=7''
     = Some \<lparr>id_s = 2, secret = ''new''\<rparr> \<and>
   decodeID demoPrims ''new/live&id=2'' = Some 2 \<and>
   getSessionData demoPrims (demoOptions (RollingBool False)) 1700000000000
       (initialState ''new/live&id=2'')
     = (Inr (Some (demoData (Some 1700003600000))),
        (initialState ''new/live'')\<lparr>sessionData := Some (demoData (Some 1700003600000))\<rparr>) \<and>
   decrypt demoPrims ''garbage'' ''new'' = None \<and>
   getSessionData demoPrims (demoOptions (RollingBool False)) 1700000000000
       (initialState ''garbage&id=2'')
     = (Inr None,
        destroyed (demoOptions (RollingBool False)) 1700000000000 (initialState ''garbage''))"
proof -
  let ?O = "demoOptions (RollingBool False)"
  have ring: "secrets ?O = [\<lparr>id_s = 2, secret = ''new''\<rparr>, \<lparr>id_s = 1, secret = ''old''\<rparr>]"
    by (simp add: demoOptions_def)
  have gp: "payloadPart ''garbage&id=2'' = ''garbage''"
    and gi: "idPart ''garbage&id=2'' = Some ''2''"
    by (simp_all add: payloadPart_def idPart_def marker_def)
  have gid: "decodeID demoPrims ''garbage&id=2'' = Some 2"
    by (simp add: decodeID_def gi demoPrims_def)
  have gr: "resolveSecret demoPrims ?O ''garbage&id=2'' = Some \<lparr>id_s = 2, secret = ''new''\<rparr>"
    by (simp add: resolveSecret_def gid ring)
  have gd: "decrypt demoPrims ''garbage'' ''new'' = None"
    by (simp add: demoPrims_def)
  have nm: "\<not> has_sep marker ''old/live''"
    by (simp add: marker_def)
  have id7: "decodeID demoPrims ''new/live&id=7'' = None"
    by (simp add: decodeID_def demo_parts demoPrims_def)
  have id2: "decodeID demoPrims ''new/live&id=2'' = Some 2"
    by (simp add: decodeID_def demo_parts demoPrims_def)
  have r2: "resolveSecret demoPrims ?O ''new/live&id=2'' = Some \<lparr>id_s = 2, secret = ''new''\<rparr>"
    by (simp add: resolveSecret_def id2 ring)
  have dec: "decrypt demoPrims ''new/live'' ''new'' = Some (demoData (Some 1700003600000))"
    by (simp add: demoPrims_def)
  have chk: "checkSessionExpiry 1700000000000
               ((initialState ''new/live&id=2'')
                  \<lparr>sessionCookie := ''new/live'', sessionData := Some (demoData (Some 1700003600000))\<rparr>)
             = (initialState ''new/live'')\<lparr>sessionData := Some (demoData (Some 1700003600000))\<rparr>"
    by (simp add: checkSessionExpiry_def demoData_def initialState_def)
  note a = C8_decode_id_resolution[of "initialState ''''" "''''" demoPrims ?O 1700000000000]
  note b = C8_decode_id_resolution[of "initialState ''old/live''" "''old/live''" demoPrims ?O
             1700000000000]
  note c = C8_decode_id_resolution[of "initialState ''new/live&id=7''" "''new/live&id=7''"
             demoPrims ?O 1700000000000]
  note d = C8_decode_id_resolution[of "initialState ''new/live&id=2''" "''new/live&id=2''"
             demoPrims ?O 1700000000000]
  have A: "getSessionData demoPrims ?O 1700000000000 (initialState '''') = (Inr None, initialState '''')"
    using a by (simp add: initialState_def demo_parts)
  have B: "decodeID demoPrims ''old/live'' = Some 1"
    using b nm by (simp add: initialState_def)
  have B': "resolveSecret demoPrims ?O ''old/live'' = Some \<lparr>id_s = 1, secret = ''old''\<rparr>"
    using b B by (auto simp: initialState_def ring)
  have C: "resolveSecret demoPrims ?O ''new/live&id=7'' = Some \<lparr>id_s = 2, secret = ''new''\<rparr>"
    using c id7 by (simp add: initialState_def ring)
  have D: "getSessionData demoPrims ?O 1700000000000 (initialState ''new/live&id=2'')
     = (Inr (Some (demoData (Some 1700003600000))),
        (initialState ''new/live'')\<lparr>sessionData := Some (demoData (Some 1700003600000))\<rparr>)"
    using d r2 dec id2 ring chk by (simp add: initialState_def demo_parts)
  have E: "getSessionData demoPrims ?O 1700000000000 (initialState ''garbage&id=2'')
     = (Inr None, destroyed ?O 1700000000000 (initialState ''garbage''))"
    using C8_decode_id_resolution[of "initialState ''garbage&id=2''" "''garbage&id=2''"
            demoPrims ?O 1700000000000] gp gr gd
    by (simp add: initialState_def)
  from A B B' C D E nm id7 id2 gd show ?thesis by simp
qed

subsection \<open>Expiry\<close>

lemma session_data_invalid: "invalidDate s \<Longrightarrow> session_data s = emptyData"
  by (simp add: session_data_def split: option.splits)

lemma checkSessionExpiry_expired:
  "sessionData s = Some d \<Longrightarrow> expires d = Some e \<Longrightarrow> e < now
     \<Longrightarrow> checkSessionExpiry now s = s\<lparr>invalidDate := True\<rparr>"
  by (simp add: checkSessionExpiry_def)

lemma checkSessionExpiry_live:
  "sessionData s = Some d \<Longrightarrow> expires d = Some e \<Longrightarrow> now \<le> e
     \<Longrightarrow> checkSessionExpiry now s = s"
  by (simp add: checkSessionExpiry_def)

lemma checkSessionExpiry_bare:
  "sessionData s = Some d \<Longrightarrow> expires d = None \<Longrightarrow> checkSessionExpiry now s = s"
  by (simp add: checkSessionExpiry_def)

lemma reEncryptSession_invalidDate:
  "invalidDate (snd (reEncryptSession h opts now s)) = invalidDate s"
  by (simp add: reEncryptSession_def Let_def split: option.splits sum.splits)

lemma session_refresh_invalidDate:
  "invalidDate (snd (session_refresh h opts now ov s)) = invalidDate s"
  by (simp add: session_refresh_def Let_def split: option.splits sum.splits)

lemma dropValue_snd: "snd (dropValue r) = snd r"
  by (cases r) (simp add: dropValue_def split: sum.splits)

lemma rollingRefresh_invalidDate:
  "invalidDate (snd (rollingRefresh h opts now s)) = invalidDate s"
  by (simp add: rollingRefresh_def Let_def dropValue_snd session_refresh_invalidDate
      split: rolling.splits option.splits)

lemma rollingRefresh_inactive:
  "\<not> rollingActive (rolling opts) \<Longrightarrow> rollingRefresh h opts now s = (Inr (), s)"
  by (simp add: rollingRefresh_def)

lemma getSessionData_no_throw: "\<exists>v. fst (getSessionData h opts now s) = Inr v"
  by (simp add: getSessionData_def Let_def destroySession_eq
      split: option.splits list.splits prod.splits sum.splits)

lemma getSessionData_invalidDate:
  assumes "sessionCookie s = c" and "payloadPart c \<noteq> []"
    and "resolveSecret h opts c = Some sec"
    and "decrypt h (payloadPart c) (secret sec) = Some d"
    and "expires d = Some e" and "e < now"
  shows "invalidDate (snd (getSessionData h opts now s))"
proof -
  obtain s0 rest where ring: "secrets opts = s0 # rest"
    using assms(3) resolveSecret_ring[of h opts c sec] by (cases "secrets opts") auto
  let ?s1 = "s\<lparr>sessionCookie := payloadPart c, sessionData := Some d\<rparr>"
  have chk: "checkSessionExpiry now ?s1 = ?s1\<lparr>invalidDate := True\<rparr>"
    using assms(5,6) by (simp add: checkSessionExpiry_expired)
  have re: "invalidDate (snd (reEncryptSession h opts now (?s1\<lparr>invalidDate := True\<rparr>)))"
    by (simp add: reEncryptSession_invalidDate)
  show ?thesis
    using re
    by (auto simp: getSessionData_decrypted[OF assms(1-4) ring] chk Let_def destroyed_def
        split: prod.splits sum.splits)
qed

text \<open>
  Claim C4 (expiry degradation). Let the incoming cookie decrypt to \<open>d\<close> under the
  resolved secret, with a stored \<open>expires\<close> that lies before \<open>now\<close>. The expiry check
  changes nothing but the flag \<open>invalidDate\<close>. After initialization, whatever rotation
  and rolling refresh did, the flag is set and the \<open>data\<close> accessor returns the empty
  payload. When the cookie carries the current id and rolling is off, initialization
  ends with the decrypted data still stored and with no directive at all: nothing is
  sent and nothing is destroyed.
\<close>

theorem C4_expiry_degradation:
  assumes "payloadPart c \<noteq> []"
    and "resolveSecret h opts c = Some sec"
    and "decrypt h (payloadPart c) (secret sec) = Some d"
    and "expires d = Some e" and "e < now"
  shows "checkSessionExpiry now (s\<lparr>sessionData := Some d\<rparr>)
           = s\<lparr>sessionData := Some d, invalidDate := True\<rparr> \<and>
         (let r = initializeSession h opts now c in
            invalidDate (snd r) \<and> session_data (snd r) = emptyData \<and>
            (\<forall>s0 rest. secrets opts = s0 # rest \<and> Some (id_s s0) = decodeID h c \<and>
                       \<not> rollingActive (rolling opts) \<longrightarrow>
               r = (Inr (), (initialState (payloadPart c))
                              \<lparr>sessionData := Some d, invalidDate := True\<rparr>)))"
proof -
  have one: "checkSessionExpiry now (s\<lparr>sessionData := Some d\<rparr>)
               = s\<lparr>sessionData := Some d, invalidDate := True\<rparr>"
    using assms(4,5) by (simp add: checkSessionExpiry_def)
  let ?g = "getSessionData h opts now (initialState c)"
  have ic: "sessionCookie (initialState c) = c" by (simp add: initialState_def)
  have inv: "invalidDate (snd ?g)"
    using getSessionData_invalidDate[OF ic assms] .
  obtain v where v: "fst ?g = Inr v"
    using getSessionData_no_throw[of h opts now "initialState c"] by blast
  then have init: "initializeSession h opts now c = rollingRefresh h opts now (snd ?g)"
    by (cases ?g) (simp add: initializeSession_def)
  have two: "invalidDate (snd (initializeSession h opts now c))"
    by (simp add: init rollingRefresh_invalidDate inv)
  have three: "initializeSession h opts now c
                 = (Inr (), (initialState (payloadPart c))\<lparr>sessionData := Some d, invalidDate := True\<rparr>)"
    if "secrets opts = s0 # rest" "Some (id_s s0) = decodeID h c" "\<not> rollingActive (rolling opts)"
    for s0 rest
  proof -
    have "?g = (Inr (Some d),
                checkSessionExpiry now ((initialState c)\<lparr>sessionCookie := payloadPart c, sessionData := Some d\<rparr>))"
      using getSessionData_decrypted[OF ic assms(1-3) that(1), of now] that(2)
      by (simp add: Let_def)
    also have "checkSessionExpiry now ((initialState c)\<lparr>sessionCookie := payloadPart c, sessionData := Some d\<rparr>)
                 = (initialState (payloadPart c))\<lparr>sessionData := Some d, invalidDate := True\<rparr>"
      using assms(4,5) by (simp add: checkSessionExpiry_def initialState_def)
    finally show ?thesis
      using that(3) by (simp add: init rollingRefresh_inactive)
  qed
  show ?thesis
    using one two three by (auto simp: Let_def session_data_invalid)
qed

theorem C4_expiry_degradation_witness:
  "payloadPart ''new/dead&id=2'' = ''new/dead'' \<and>
   resolveSecret demoPrims (demoOptions (RollingBool False)) ''new/dead&id=2''
     = Some \<lparr>id_s = 2, secret = ''new''\<rparr> \<and>
   decrypt demoPrims ''new/dead'' ''new'' = Some (demoData (Some 1699999999000)) \<and>
   initializeSession demoPrims (demoOptions (RollingBool False)) 1700000000000 ''new/dead&id=2''
     = (Inr (), (initialState ''new/dead'')
                  \<lparr>sessionData := Some (demoData (Some 1699999999000)), invalidDate := True\<rparr>) \<and>
   session_data (snd (initializeSession demoPrims (demoOptions (RollingBool False)) 1700000000000
                        ''new/dead&id=2'')) = emptyData"
proof -
  let ?O = "demoOptions (RollingBool False)"
  have p: "payloadPart ''new/dead&id=2'' = ''new/dead''"
    and i: "idPart ''new/dead&id=2'' = Some ''2''"
    by (simp_all add: payloadPart_def idPart_def marker_def)
  have ring: "secrets ?O = [\<lparr>id_s = 2, secret = ''new''\<rparr>, \<lparr>id_s = 1, secret = ''old''\<rparr>]"
    by (simp add: demoOptions_def)
  have id2: "decodeID demoPrims ''new/dead&id=2'' = Some 2"
    by (simp add: decodeID_def i demoPrims_def)
  have r: "resolveSecret demoPrims ?O ''new/dead&id=2'' = Some \<lparr>id_s = 2, secret = ''new''\<rparr>"
    by (simp add: resolveSecret_def id2 ring)
  have d: "decrypt demoPrims ''new/dead'' ''new'' = Some (demoData (Some 1699999999000))"
    by (simp add: demoPrims_def)
  have e: "expires (demoData (Some 1699999999000)) = Some 1699999999000"
    by (simp add: demoData_def)
  have off: "\<not> rollingActive (rolling ?O)"
    by (simp add: rollingActive_def demoOptions_def)
  have pne: "payloadPart ''new/dead&id=2'' \<noteq> []" by (simp add: p)
  have d': "decrypt demoPrims (payloadPart ''new/dead&id=2'') (secret \<lparr>id_s = 2, secret = ''new''\<rparr>)
              = Some (demoData (Some 1699999999000))"
    by (simp add: p d)
  have lt: "(1699999999000::int) < 1700000000000" by simp
  from C4_expiry_degradation[OF pne r d' e lt, of "initialState ''new/dead''"] ring id2 off p
  have "initializeSession demoPrims ?O 1700000000000 ''new/dead&id=2''
          = (Inr (), (initialState ''new/dead'')
                       \<lparr>sessionData := Some (demoData (Some 1699999999000)), invalidDate := True\<rparr>)
        \<and> session_data (snd (initializeSession demoPrims ?O 1700000000000 ''new/dead&id=2'')) = emptyData"
    by (simp add: Let_def session_data_def initialState_def)
  with p r d show ?thesis by (simp add: session_data_invalid)
qed

subsection \<open>The codec\<close>

lemma encoded_parts:
  assumes "\<not> has_sep marker ct" and "\<not> has_sep marker t"
  shows "payloadPart (ct @ marker @ t) = ct" and "idPart (ct @ marker @ t) = Some t"
  using assms by (simp_all add: payloadPart_def idPart_def split_js_first split_js_none)

lemma encode_eq:
  "secrets opts = s0 # rest \<Longrightarrow> encrypt h (sessionData s) (secret s0) = Some ct
     \<Longrightarrow> encode h opts s = Inr (ct @ marker @ toString h (id_s s0))"
  by (simp add: encode_def)

lemma resolveSecret_current:
  "secrets opts = s0 # rest \<Longrightarrow> decodeID h c = Some (id_s s0) \<Longrightarrow> resolveSecret h opts c = Some s0"
  by (simp add: resolveSecret_def)

lemma plain_text_no_marker: "CHR ''&'' \<notin> set t \<Longrightarrow> \<not> has_sep marker t"
  by (induction t) (auto simp: marker_def)

text \<open>
  Claim C1 (codec round trip). Let the ring start with \<open>s0\<close>, let \<^verbatim>\<open>encrypt\<close> turn the
  payload \<open>P\<close> under \<open>s0\<close> into the ciphertext \<open>ct\<close>, and let \<^verbatim>\<open>decrypt\<close> turn \<open>ct\<close> under
  \<open>s0\<close> back into \<open>P\<close>. Then \<open>encode\<close> yields \<open>ct\<close>, the marker and the id of \<open>s0\<close>, and
  decoding that value resolves the id and the secret of \<open>s0\<close> and stores and returns
  \<open>P\<close>; no directive is scheduled.

  The remaining hypotheses describe the two imported conversions, and hold of them: the
  ciphertext of zencrypt is a non-empty text of hexadecimal digits, and the text that
  JavaScript gives a number is never empty, consists of digits, sign, point and
  letters, and converts back to the number. Neither contains \<open>&\<close>, hence neither
  contains the marker (lemma \<open>plain_text_no_marker\<close>).
\<close>

theorem C1_codec_round_trip:
  assumes "secrets opts = s0 # rest"
    and "sessionData s = Some P"
    and "encrypt h (Some P) (secret s0) = Some ct"
    and "decrypt h ct (secret s0) = Some P"
    and "ct \<noteq> []" and "\<not> has_sep marker ct"
    and "toString h (id_s s0) \<noteq> []" and "\<not> has_sep marker (toString h (id_s s0))"
    and "toNumber h (toString h (id_s s0)) = Some (id_s s0)"
  shows "encode h opts s = Inr (ct @ marker @ toString h (id_s s0)) \<and>
         decodeID h (ct @ marker @ toString h (id_s s0)) = Some (id_s s0) \<and>
         resolveSecret h opts (ct @ marker @ toString h (id_s s0)) = Some s0 \<and>
         getSessionData h opts now (initialState (ct @ marker @ toString h (id_s s0)))
           = (Inr (Some P), checkSessionExpiry now ((initialState ct)\<lparr>sessionData := Some P\<rparr>)) \<and>
         sessionData (snd (getSessionData h opts now
                             (initialState (ct @ marker @ toString h (id_s s0))))) = Some P"
proof -
  let ?c = "ct @ marker @ toString h (id_s s0)"
  have e: "encode h opts s = Inr ?c"
    using assms(1-3) by (simp add: encode_eq)
  have p: "payloadPart ?c = ct" and i: "idPart ?c = Some (toString h (id_s s0))"
    using assms(6,8) by (simp_all add: encoded_parts)
  have did: "decodeID h ?c = Some (id_s s0)"
    using assms(7,9) by (simp add: decodeID_def i)
  have res: "resolveSecret h opts ?c = Some s0"
    using assms(1) did by (rule resolveSecret_current)
  have ic: "sessionCookie (initialState ?c) = ?c" by (simp add: initialState_def)
  have g: "getSessionData h opts now (initialState ?c)
             = (Inr (Some P), checkSessionExpiry now ((initialState ct)\<lparr>sessionData := Some P\<rparr>))"
    using getSessionData_decrypted[OF ic _ res _ assms(1), of P now] assms(4,5) p did
    by (simp add: Let_def initialState_def)
  from e did res g show ?thesis by simp
qed

theorem C1_codec_round_trip_witness:
  "encode demoPrims (demoOptions (RollingBool False))
      ((initialState '''')\<lparr>sessionData := Some (demoData (Some 1700003600000))\<rparr>)
     = Inr ''new/live&id=2'' \<and>
   decrypt demoPrims ''new/live'' ''new'' = Some (demoData (Some 1700003600000)) \<and>
   decodeID demoPrims ''new/live&id=2'' = Some 2 \<and>
   getSessionData demoPrims (demoOptions (RollingBool False)) 1700000000000
       (initialState ''new/live&id=2'')
     = (Inr (Some (demoData (Some 1700003600000))),
        (initialState ''new/live'')\<lparr>sessionData := Some (demoData (Some 1700003600000))\<rparr>)"
proof -
  let ?O = "demoOptions (RollingBool False)"
  let ?P = "demoData (Some 1700003600000)"
  let ?st = "(initialState '''')\<lparr>sessionData := Some ?P\<rparr>"
  let ?cur = "\<lparr>id_s = 2, secret = ''new''\<rparr>"
  have ring: "secrets ?O = [?cur, \<lparr>id_s = 1, secret = ''old''\<rparr>]"
    by (simp add: demoOptions_def)
  have sd: "sessionData ?st = Some ?P" by simp
  have enc: "encrypt demoPrims (Some ?P) (secret ?cur) = Some ''new/live''"
    by (simp add: demoPrims_def demoTag_def demoData_def)
  have dec: "decrypt demoPrims ''new/live'' (secret ?cur) = Some ?P"
    by (simp add: demoPrims_def)
  have ne: "''new/live'' \<noteq> []" by simp
  have nm: "\<not> has_sep marker ''new/live''" by (simp add: marker_def)
  have ts: "toString demoPrims 2 = ''2''" by (simp add: demoPrims_def)
  have tne: "toString demoPrims (id_s ?cur) \<noteq> []" by (simp add: ts)
  have tnm: "\<not> has_sep marker (toString demoPrims (id_s ?cur))" by (simp add: ts marker_def)
  have tn: "toNumber demoPrims (toString demoPrims (id_s ?cur)) = Some (id_s ?cur)"
    by (simp add: demoPrims_def)
  have chk: "checkSessionExpiry 1700000000000 ((initialState ''new/live'')\<lparr>sessionData := Some ?P\<rparr>)
               = (initialState ''new/live'')\<lparr>sessionData := Some ?P\<rparr>"
    by (simp add: checkSessionExpiry_def demoData_def)
  from C1_codec_round_trip[OF ring sd enc dec ne nm tne tnm tn, of 1700000000000] dec chk
  show ?thesis by (simp add: ts marker_def)
qed

subsection \<open>Rotation\<close>

lemma makeCookie_live:
  "secrets opts = s0 # rest \<Longrightarrow> encrypt h (sessionData s) (secret s0) = Some ct
     \<Longrightarrow> makeCookie h opts now s m False
           = Inr (serializeArgs opts (ct @ marker @ toString h (id_s s0)) (Some m) None)"
  by (simp add: makeCookie_def encode_eq)

lemma reEncryptSession_ok:
  assumes "sessionData s = Some d" and "secrets opts = s0 # rest"
    and "encrypt h (Some d) (secret s0) = Some ct"
  shows "reEncryptSession h opts now s =
     (Inr (), s\<lparr>sessionData := Some d, shouldSendToClient := True,
                setCookie := Some (serializeArgs opts (ct @ marker @ toString h (id_s s0))
                                     (Some (chosenMaxAge h opts now s)) None)\<rparr>)"
  using assms
  by (simp add: reEncryptSession_def Let_def makeCookie_live[where ?s0.0 = s0 and rest = rest and ct = ct])

lemma resolved_other_id:
  assumes "resolveSecret h opts c = Some sec" and "secrets opts = s0 # rest"
    and "id_s sec \<noteq> id_s s0"
  shows "decodeID h c = Some (id_s sec)"
proof (cases "find (\<lambda>x. Some (id_s x) = decodeID h c) (secrets opts)")
  case None
  with assms show ?thesis by (simp add: resolveSecret_def)
next
  case (Some x)
  with assms(1) have "x = sec" by (simp add: resolveSecret_def)
  with Some show ?thesis by (auto simp: find_Some_iff)
qed

lemma chosenMaxAge_checked [simp]:
  "chosenMaxAge h opts now (checkSessionExpiry t s) = chosenMaxAge h opts now s"
  by (simp add: chosenMaxAge_def)

text \<open>
  Claim C2 (rotation), as the code has it. Let the incoming cookie decrypt to \<open>d\<close>
  under a secret whose id differs from the id of the first secret \<open>s0\<close> of the ring,
  and let \<^verbatim>\<open>encrypt\<close> turn \<open>d\<close> under \<open>s0\<close> into \<open>ct\<close>. Then \<open>getSessionData\<close>, which runs
  before anything else of the initialization, returns \<open>d\<close>, keeps it stored and
  schedules the directive whose value is \<open>ct\<close>, the marker and the id of \<open>s0\<close>. Its
  max-age is the remaining lifetime, the stored \<open>expires\<close> minus \<open>now\<close> in seconds, when
  \<open>d\<close> carries an \<open>expires\<close>, and the configured \<^verbatim>\<open>options.cookie.maxAge\<close> when it
  carries none. With rolling off this is the state in which initialization ends.
\<close>

theorem C2_rotation:
  assumes "payloadPart c \<noteq> []"
    and "resolveSecret h opts c = Some sec"
    and "decrypt h (payloadPart c) (secret sec) = Some d"
    and "secrets opts = s0 # rest"
    and "id_s sec \<noteq> id_s s0"
    and "encrypt h (Some d) (secret s0) = Some ct"
  shows "let r = getSessionData h opts now (initialState c);
             m = (case expires d of
                    None \<Rightarrow> maxAge (cookie opts)
                  | Some e \<Rightarrow> remainingSeconds h e now)
         in fst r = Inr (Some d) \<and>
            sessionData (snd r) = Some d \<and>
            setCookie (snd r)
              = Some (serializeArgs opts (ct @ marker @ toString h (id_s s0)) (Some m) None) \<and>
            shouldSendToClient (snd r) \<and>
            (\<not> rollingActive (rolling opts) \<longrightarrow> initializeSession h opts now c = (Inr (), snd r))"
proof -
  have ic: "sessionCookie (initialState c) = c" by (simp add: initialState_def)
  have did: "Some (id_s s0) \<noteq> decodeID h c"
    using resolved_other_id[OF assms(2,4,5)] assms(5) by simp
  let ?s2 = "checkSessionExpiry now
               ((initialState c)\<lparr>sessionCookie := payloadPart c, sessionData := Some d\<rparr>)"
  let ?dir = "serializeArgs opts (ct @ marker @ toString h (id_s s0))
                (Some (chosenMaxAge h opts now ?s2)) None"
  have sd: "sessionData ?s2 = Some d" by simp
  have re: "reEncryptSession h opts now ?s2
              = (Inr (), ?s2\<lparr>sessionData := Some d, shouldSendToClient := True,
                              setCookie := Some ?dir\<rparr>)"
    using reEncryptSession_ok[OF sd assms(4,6)] .
  have g: "getSessionData h opts now (initialState c)
             = (Inr (Some d), ?s2\<lparr>sessionData := Some d, shouldSendToClient := True,
                                   setCookie := Some ?dir\<rparr>)"
    using did by (simp add: getSessionData_decrypted[OF ic assms(1-4)] re Let_def)
  have m: "chosenMaxAge h opts now
              ((initialState c)\<lparr>sessionCookie := payloadPart c, sessionData := Some d\<rparr>)
             = (case expires d of None \<Rightarrow> maxAge (cookie opts) | Some e \<Rightarrow> remainingSeconds h e now)"
    by (simp add: chosenMaxAge_def)
  show ?thesis
    by (simp add: g m Let_def initializeSession_def rollingRefresh_inactive)
qed

theorem C2_rotation_witness:
  "resolveSecret demoPrims (demoOptions (RollingBool False)) ''old/live&id=1''
     = Some \<lparr>id_s = 1, secret = ''old''\<rparr> \<and>
   decrypt demoPrims ''old/live'' ''old'' = Some (demoData (Some 1700003600000)) \<and>
   encrypt demoPrims (Some (demoData (Some 1700003600000))) ''new'' = Some ''new/live'' \<and>
   fst (initializeSession demoPrims (demoOptions (RollingBool False)) 1700000000000 ''old/live&id=1'')
     = Inr () \<and>
   setCookie (snd (initializeSession demoPrims (demoOptions (RollingBool False)) 1700000000000
                     ''old/live&id=1''))
     = Some (serializeArgs (demoOptions (RollingBool False)) ''new/live&id=2'' (Some 3600) None)"
proof -
  let ?O = "demoOptions (RollingBool False)"
  let ?P = "demoData (Some 1700003600000)"
  have p: "payloadPart ''old/live&id=1'' = ''old/live''"
    and i: "idPart ''old/live&id=1'' = Some ''1''"
    by (simp_all add: payloadPart_def idPart_def marker_def)
  have ring: "secrets ?O = [\<lparr>id_s = 2, secret = ''new''\<rparr>, \<lparr>id_s = 1, secret = ''old''\<rparr>]"
    by (simp add: demoOptions_def)
  have did: "decodeID demoPrims ''old/live&id=1'' = Some 1"
    by (simp add: decodeID_def i demoPrims_def)
  have res: "resolveSecret demoPrims ?O ''old/live&id=1'' = Some \<lparr>id_s = 1, secret = ''old''\<rparr>"
    by (simp add: resolveSecret_def did ring)
  have dec: "decrypt demoPrims ''old/live'' ''old'' = Some ?P"
    by (simp add: demoPrims_def)
  have enc: "encrypt demoPrims (Some ?P) ''new'' = Some ''new/live''"
    by (simp add: demoPrims_def demoTag_def demoData_def)
  have pne: "payloadPart ''old/live&id=1'' \<noteq> []" by (simp add: p)
  have dec': "decrypt demoPrims (payloadPart ''old/live&id=1'') (secret \<lparr>id_s = 1, secret = ''old''\<rparr>)
                = Some ?P"
    by (simp add: p dec)
  have ids: "id_s \<lparr>id_s = 1, secret = ''old''\<rparr> \<noteq> id_s \<lparr>id_s = 2, secret = ''new''\<rparr>" by simp
  have enc': "encrypt demoPrims (Some ?P) (secret \<lparr>id_s = 2, secret = ''new''\<rparr>) = Some ''new/live''"
    by (simp add: enc)
  have off: "\<not> rollingActive (rolling ?O)"
    by (simp add: rollingActive_def demoOptions_def)
  have rem: "remainingSeconds demoPrims 1700003600000 1700000000000 = 3600"
    by (simp add: remainingSeconds_def)
  have ts: "toString demoPrims 2 = ''2''" by (simp add: demoPrims_def)
  from C2_rotation[OF pne res dec' ring ids enc', of 1700000000000] off
  have "fst (initializeSession demoPrims ?O 1700000000000 ''old/live&id=1'') = Inr () \<and>
        setCookie (snd (initializeSession demoPrims ?O 1700000000000 ''old/live&id=1''))
          = Some (serializeArgs ?O ''new/live&id=2'' (Some 3600) None)"
    by (simp add: Let_def demoData_def rem ts marker_def)
  with res dec enc show ?thesis by simp
qed

text \<open>
  A session stored without \<open>expires\<close> and decoded under the retired secret is
  re-encoded with the configured default max-age of 604800 seconds.
\<close>

theorem C2_rotation_counterexample:
  "resolveSecret demoPrims (demoOptions (RollingBool False)) ''old/bare&id=1''
     = Some \<lparr>id_s = 1, secret = ''old''\<rparr> \<and>
   decrypt demoPrims (payloadPart ''old/bare&id=1'') ''old'' = Some (demoData None) \<and>
   id_s (\<lparr>id_s = 2, secret = ''new''\<rparr> :: string Secret) \<noteq> 1 \<and>
   secrets (demoOptions (RollingBool False))
     = [\<lparr>id_s = 2, secret = ''new''\<rparr>, \<lparr>id_s = 1, secret = ''old''\<rparr>] \<and>
   maxAge (cookie (demoOptions (RollingBool False))) = 604800 \<and>
   initializeSession demoPrims (demoOptions (RollingBool False)) 1700000000000 ''old/bare&id=1''
     = (Inr (), (initialState ''old/bare'')
                  \<lparr>sessionData := Some (demoData None),
                    setCookie := Some (serializeArgs (demoOptions (RollingBool False))
                                         ''new/bare&id=2'' (Some 604800) None),
                    shouldSendToClient := True\<rparr>)"
proof -
  let ?O = "demoOptions (RollingBool False)"
  have p: "payloadPart ''old/bare&id=1'' = ''old/bare''"
    and i: "idPart ''old/bare&id=1'' = Some ''1''"
    by (simp_all add: payloadPart_def idPart_def marker_def)
  have ring: "secrets ?O = [\<lparr>id_s = 2, secret = ''new''\<rparr>, \<lparr>id_s = 1, secret = ''old''\<rparr>]"
    by (simp add: demoOptions_def)
  have ma: "maxAge (cookie ?O) = 604800" by (simp add: demoOptions_def)
  have did: "decodeID demoPrims ''old/bare&id=1'' = Some 1"
    by (simp add: decodeID_def i demoPrims_def)
  have res: "resolveSecret demoPrims ?O ''old/bare&id=1'' = Some \<lparr>id_s = 1, secret = ''old''\<rparr>"
    by (simp add: resolveSecret_def did ring)
  have dec: "decrypt demoPrims ''old/bare'' ''old'' = Some (demoData None)"
    by (simp add: demoPrims_def)
  have enc: "encrypt demoPrims (Some (demoData None)) ''new'' = Some ''new/bare''"
    by (simp add: demoPrims_def demoTag_def demoData_def)
  have ts: "toString demoPrims 2 = ''2''" by (simp add: demoPrims_def)
  have ex: "expires (demoData None) = None" by (simp add: demoData_def)
  have ic: "sessionCookie (initialState ''old/bare&id=1'') = ''old/bare&id=1''"
    by (simp add: initialState_def)
  have g: "getSessionData demoPrims ?O 1700000000000 (initialState ''old/bare&id=1'')
     = (Inr (Some (demoData None)),
        (initialState ''old/bare'')
          \<lparr>sessionData := Some (demoData None),
            setCookie := Some (serializeArgs ?O ''new/bare&id=2'' (Some 604800) None),
            shouldSendToClient := True\<rparr>)"
    using getSessionData_decrypted[OF ic _ res _ ring, of "demoData None" 1700000000000]
    by (simp add: p dec did Let_def checkSessionExpiry_def reEncryptSession_def chosenMaxAge_def
        makeCookie_def encode_def ring enc ts ma marker_def ex initialState_def)
  have off: "\<not> rollingActive (rolling ?O)"
    by (simp add: rollingActive_def demoOptions_def)
  have "initializeSession demoPrims ?O 1700000000000 ''old/bare&id=1''
     = (Inr (), (initialState ''old/bare'')
          \<lparr>sessionData := Some (demoData None),
            setCookie := Some (serializeArgs ?O ''new/bare&id=2'' (Some 604800) None),
            shouldSendToClient := True\<rparr>)"
    by (simp add: initializeSession_def g rollingRefresh_inactive off)
  with res dec ring ma p show ?thesis by simp
qed

subsection \<open>The sample deployment at work\<close>

lemma demo_ring:
  "secrets (demoOptions r) = [\<lparr>id_s = 2, secret = ''new''\<rparr>, \<lparr>id_s = 1, secret = ''old''\<rparr>]"
  by (simp add: demoOptions_def)

lemma demo_week: "daysToMaxage demoPrims 1700000000000 7 = 604800"
  by (simp add: daysToMaxage_def demoPrims_def)

lemma demo_expiry_week: "maxAgeToDateOfExpiry demoPrims 1700000000000 604800 = 1700604800000"
  by (simp add: maxAgeToDateOfExpiry_def js_trunc_def)

lemma demo_dead_decode:
  "getSessionData demoPrims (demoOptions r) 1700000000000 (initialState ''new/dead&id=2'')
     = (Inr (Some (demoData (Some 1699999999000))), deadState)"
proof -
  have p: "payloadPart ''new/dead&id=2'' = ''new/dead''"
    and i: "idPart ''new/dead&id=2'' = Some ''2''"
    by (simp_all add: payloadPart_def idPart_def marker_def)
  have id2: "decodeID demoPrims ''new/dead&id=2'' = Some 2"
    by (simp add: decodeID_def i demoPrims_def)
  have res: "resolveSecret demoPrims (demoOptions r) ''new/dead&id=2''
               = Some \<lparr>id_s = 2, secret = ''new''\<rparr>"
    by (simp add: resolveSecret_def id2 demo_ring)
  have d: "decrypt demoPrims ''new/dead'' ''new'' = Some (demoData (Some 1699999999000))"
    by (simp add: demoPrims_def)
  have ic: "sessionCookie (initialState ''new/dead&id=2'') = ''new/dead&id=2''"
    by (simp add: initialState_def)
  show ?thesis
    using getSessionData_decrypted[OF ic _ res _ demo_ring, of "demoData (Some 1699999999000)"
            1700000000000]
    by (simp add: p d id2 Let_def checkSessionExpiry_def deadState_def initialState_def demoData_def)
qed

lemma demo_dead_init:
  "initializeSession demoPrims (demoOptions (RollingBool False)) 1700000000000 ''new/dead&id=2''
     = (Inr (), deadState)"
proof -
  let ?O = "demoOptions (RollingBool False)"
  have p: "payloadPart ''new/dead&id=2'' = ''new/dead''"
    and i: "idPart ''new/dead&id=2'' = Some ''2''"
    by (simp_all add: payloadPart_def idPart_def marker_def)
  have id2: "decodeID demoPrims ''new/dead&id=2'' = Some 2"
    by (simp add: decodeID_def i demoPrims_def)
  have r: "resolveSecret demoPrims ?O ''new/dead&id=2'' = Some \<lparr>id_s = 2, secret = ''new''\<rparr>"
    by (simp add: resolveSecret_def id2 demo_ring)
  have d: "decrypt demoPrims ''new/dead'' ''new'' = Some (demoData (Some 1699999999000))"
    by (simp add: demoPrims_def)
  have ic: "sessionCookie (initialState ''new/dead&id=2'') = ''new/dead&id=2''"
    by (simp add: initialState_def)
  have g: "getSessionData demoPrims ?O 1700000000000 (initialState ''new/dead&id=2'')
             = (Inr (Some (demoData (Some 1699999999000))), deadState)"
    using getSessionData_decrypted[OF ic _ r _ demo_ring, of "demoData (Some 1699999999000)" 1700000000000]
    by (simp add: p d id2 Let_def checkSessionExpiry_def deadState_def initialState_def demoData_def)
  have off: "\<not> rollingActive (rolling ?O)"
    by (simp add: rollingActive_def demoOptions_def)
  show ?thesis
    by (simp add: initializeSession_def g rollingRefresh_inactive off)
qed

subsection \<open>refresh\<close>

lemma session_refresh_ok:
  assumes "sessionData s = Some d" and "secrets opts = s0 # rest"
    and "m = daysToMaxage h now (refreshDays opts ov)"
    and "encrypt h (Some (d\<lparr>expires := Some (maxAgeToDateOfExpiry h now m)\<rparr>)) (secret s0) = Some ct"
  shows "session_refresh h opts now ov s =
     (Inr True, s\<lparr>sessionData := Some (d\<lparr>expires := Some (maxAgeToDateOfExpiry h now m)\<rparr>),
                  setCookie := Some (serializeArgs opts (ct @ marker @ toString h (id_s s0))
                                       (Some m) None),
                  shouldSendToClient := True\<rparr>)"
  using assms
  by (simp add: session_refresh_def Let_def
      makeCookie_live[where ?s0.0 = s0 and rest = rest and ct = ct])

lemma session_refresh_false_iff:
  "(fst (session_refresh h opts now ov s) = Inr False) = (sessionData s = None)"
  by (simp add: session_refresh_def Let_def split: option.splits sum.splits)

lemma demo_live_state_refresh:
  "session_refresh demoPrims (demoOptions r) 1700000000000 None
     ((initialState c)\<lparr>sessionData := Some (demoData e), invalidDate := b\<rparr>)
   = (Inr True,
      (initialState c)
        \<lparr>sessionData := Some (demoData (Some 1700604800000)), invalidDate := b,
          setCookie := Some (serializeArgs (demoOptions r) ''new/misc&id=2'' (Some 604800) None),
          shouldSendToClient := True\<rparr>)"
proof -
  have rd: "refreshDays (demoOptions r) None = 7"
    by (simp add: refreshDays_def demoOptions_def)
  have enc: "encrypt demoPrims (Some (demoData (Some 1700604800000))) ''new'' = Some ''new/misc''"
    by (simp add: demoPrims_def demoTag_def demoData_def)
  have ts: "toString demoPrims 2 = ''2''" by (simp add: demoPrims_def)
  have upd: "(demoData e)\<lparr>expires := Some 1700604800000\<rparr> = demoData (Some 1700604800000)"
    by (simp add: demoData_def)
  show ?thesis
    using session_refresh_ok[of "(initialState c)\<lparr>sessionData := Some (demoData e), invalidDate := b\<rparr>"
        "demoData e" "demoOptions r" "\<lparr>id_s = 2, secret = ''new''\<rparr>"
        "[\<lparr>id_s = 1, secret = ''old''\<rparr>]" 604800 demoPrims 1700000000000 None "''new/misc''"]
    by (simp add: demo_ring rd demo_week demo_expiry_week enc ts marker_def upd initialState_def)
qed

text \<open>
  Claim C5 (refresh), as the code has it. \<open>refresh\<close> returns \<open>false\<close> exactly when no
  session data is stored, and then leaves the state as it was. When data \<open>d\<close> is stored
  and \<^verbatim>\<open>encrypt\<close> succeeds, it returns \<open>true\<close>, stores \<open>d\<close> with the expiry recomputed
  from the lifetime in days, and schedules the re-encoded cookie with that lifetime as
  max-age. The lifetime in days is the override, and the configured
  \<^verbatim>\<open>expiresInDays\<close> when the override is missing or 0. The flag \<open>invalidDate\<close> plays no
  part.
\<close>

theorem C5_refresh:
  "(fst (session_refresh h opts now ov s) = Inr False) = (sessionData s = None) \<and>
   (sessionData s = None \<longrightarrow> session_refresh h opts now ov s = (Inr False, s)) \<and>
   (\<forall>d s0 rest ct.
      sessionData s = Some d \<and> secrets opts = s0 # rest \<and>
      encrypt h (Some (d\<lparr>expires := Some (maxAgeToDateOfExpiry h now
                                            (daysToMaxage h now (refreshDays opts ov)))\<rparr>))
        (secret s0) = Some ct \<longrightarrow>
      session_refresh h opts now ov s =
        (Inr True,
         s\<lparr>sessionData := Some (d\<lparr>expires := Some (maxAgeToDateOfExpiry h now
                                                     (daysToMaxage h now (refreshDays opts ov)))\<rparr>),
           setCookie := Some (serializeArgs opts (ct @ marker @ toString h (id_s s0))
                                (Some (daysToMaxage h now (refreshDays opts ov))) None),
           shouldSendToClient := True\<rparr>)) \<and>
   refreshDays opts None = expiresInDays opts \<and>
   refreshDays opts (Some 0) = expiresInDays opts \<and>
   (\<forall>n. n \<noteq> 0 \<longrightarrow> refreshDays opts (Some n) = n)"
proof (intro conjI allI impI)
  show "(fst (session_refresh h opts now ov s) = Inr False) = (sessionData s = None)"
    by (rule session_refresh_false_iff)
next
  assume "sessionData s = None"
  then show "session_refresh h opts now ov s = (Inr False, s)"
    by (simp add: session_refresh_def)
next
  fix d s0 rest ct
  assume "sessionData s = Some d \<and> secrets opts = s0 # rest \<and>
      encrypt h (Some (d\<lparr>expires := Some (maxAgeToDateOfExpiry h now
                                            (daysToMaxage h now (refreshDays opts ov)))\<rparr>))
        (secret s0) = Some ct"
  then show "session_refresh h opts now ov s =
        (Inr True,
         s\<lparr>sessionData := Some (d\<lparr>expires := Some (maxAgeToDateOfExpiry h now
                                                     (daysToMaxage h now (refreshDays opts ov)))\<rparr>),
           setCookie := Some (serializeArgs opts (ct @ marker @ toString h (id_s s0))
                                (Some (daysToMaxage h now (refreshDays opts ov))) None),
           shouldSendToClient := True\<rparr>)"
    using session_refresh_ok[of s d opts s0 rest _ h now ov ct] by simp
qed (simp_all add: refreshDays_def)

theorem C5_refresh_witness:
  "session_refresh demoPrims (demoOptions (RollingBool False)) 1700000000000 None (initialState '''')
     = (Inr False, initialState '''') \<and>
   session_refresh demoPrims (demoOptions (RollingBool False)) 1700000000000 None
     ((initialState ''new/live'')\<lparr>sessionData := Some (demoData (Some 1700003600000))\<rparr>)
     = (Inr True,
        (initialState ''new/live'')
          \<lparr>sessionData := Some (demoData (Some 1700604800000)),
            setCookie := Some (serializeArgs (demoOptions (RollingBool False)) ''new/misc&id=2''
                                 (Some 604800) None),
            shouldSendToClient := True\<rparr>) \<and>
   refreshDays (demoOptions (RollingBool False)) (Some 30) = 30 \<and>
   refreshDays (demoOptions (RollingBool False)) (Some 0) = 7"
proof -
  let ?O = "demoOptions (RollingBool False)"
  let ?S = "(initialState ''new/live'')\<lparr>sessionData := Some (demoData (Some 1700003600000))\<rparr>"
  have rd: "refreshDays ?O None = 7"
    by (simp add: refreshDays_def demoOptions_def)
  have enc: "encrypt demoPrims (Some (demoData (Some 1700604800000))) ''new'' = Some ''new/misc''"
    by (simp add: demoPrims_def demoTag_def demoData_def)
  have ts: "toString demoPrims 2 = ''2''" by (simp add: demoPrims_def)
  have upd: "(demoData (Some 1700003600000))\<lparr>expires := Some 1700604800000\<rparr> = demoData (Some 1700604800000)"
    by (simp add: demoData_def)
  have none: "sessionData (initialState '''' :: string state) = None"
    by (simp add: initialState_def)
  have some: "sessionData ?S = Some (demoData (Some 1700003600000))" by simp
  have A: "session_refresh demoPrims ?O 1700000000000 None (initialState '''')
             = (Inr False, initialState '''')"
    using C5_refresh[of demoPrims ?O 1700000000000 None "initialState ''''"] none by simp
  have B: "session_refresh demoPrims ?O 1700000000000 None ?S
     = (Inr True,
        (initialState ''new/live'')
          \<lparr>sessionData := Some (demoData (Some 1700604800000)),
            setCookie := Some (serializeArgs ?O ''new/misc&id=2'' (Some 604800) None),
            shouldSendToClient := True\<rparr>)"
    using C5_refresh[of demoPrims ?O 1700000000000 None ?S] some
    by (simp add: demo_ring rd demo_week demo_expiry_week upd enc ts marker_def)
  have C: "refreshDays ?O (Some 30) = 30"
    using C5_refresh[of demoPrims ?O 1700000000000 None ?S] by auto
  have D: "refreshDays ?O (Some 0) = 7"
    using C5_refresh[of demoPrims ?O 1700000000000 None ?S] by (simp add: demoOptions_def)
  from A B C D show ?thesis by simp
qed

text \<open>
  A stored session whose expiry has passed is no active session (the \<open>data\<close> accessor
  returns the empty payload), and yet \<open>refresh\<close> renews it and returns \<open>true\<close>.
\<close>

theorem C5_refresh_counterexample:
  "initializeSession demoPrims (demoOptions (RollingBool False)) 1700000000000 ''new/dead&id=2''
     = (Inr (), deadState) \<and>
   invalidDate deadState \<and>
   session_data deadState = emptyData \<and>
   session_refresh demoPrims (demoOptions (RollingBool False)) 1700000000000 None deadState
     = (Inr True,
        deadState
          \<lparr>sessionData := Some (demoData (Some 1700604800000)),
            setCookie := Some (serializeArgs (demoOptions (RollingBool False)) ''new/misc&id=2''
                                 (Some 604800) None),
            shouldSendToClient := True\<rparr>)"
proof -
  have inv: "invalidDate deadState" by (simp add: deadState_def)
  have r: "session_refresh demoPrims (demoOptions (RollingBool False)) 1700000000000 None deadState
     = (Inr True,
        deadState
          \<lparr>sessionData := Some (demoData (Some 1700604800000)),
            setCookie := Some (serializeArgs (demoOptions (RollingBool False)) ''new/misc&id=2''
                                 (Some 604800) None),
            shouldSendToClient := True\<rparr>)"
    using demo_live_state_refresh[where r = "RollingBool False" and c = "''new/dead''"
            and e = "Some 1699999999000" and b = True]
    by (simp add: deadState_def)
  from demo_dead_init inv r show ?thesis
    by (simp add: session_data_invalid)
qed

subsection \<open>set\<close>

lemma session_set_ok:
  assumes "secrets opts = s0 # rest"
    and "d' = (case data of None \<Rightarrow> emptyData | Some x \<Rightarrow> x)
                \<lparr>expires := Some (maxAgeToDateOfExpiry h now (chosenMaxAge h opts now s))\<rparr>"
    and "encrypt h (Some d') (secret s0) = Some ct"
  shows "session_set h opts now data s =
     (Inr d', s\<lparr>sessionData := Some d', shouldSendToClient := True,
                setCookie := Some (serializeArgs opts (ct @ marker @ toString h (id_s s0))
                                     (Some (chosenMaxAge h opts now s)) None)\<rparr>)"
  using assms
  by (simp add: session_set_def Let_def
      makeCookie_live[where ?s0.0 = s0 and rest = rest and ct = ct])

lemma session_set_stored:
  "sessionData (snd (session_set h opts now data s))
     = Some ((case data of None \<Rightarrow> emptyData | Some x \<Rightarrow> x)
               \<lparr>expires := Some (maxAgeToDateOfExpiry h now (chosenMaxAge h opts now s))\<rparr>)"
  by (simp add: session_set_def Let_def split: sum.splits)

lemma demo_default_maxAge: "maxAge (cookie (demoOptions r)) = 604800"
  by (simp add: demoOptions_def)

text \<open>
  Claim C6 (the lifetime rule of set), as the code has it. \<open>set\<close> stores the supplied
  payload in place of the old one (of the old data nothing is kept), with \<open>expires\<close>
  recomputed from the max-age \<open>m\<close>, and when \<^verbatim>\<open>encrypt\<close> succeeds it returns the stored
  data and schedules the re-encoded cookie with max-age \<open>m\<close>. The max-age \<open>m\<close> is the
  configured \<^verbatim>\<open>options.cookie.maxAge\<close> when no data is stored or the stored data has no
  \<open>expires\<close>, and the stored \<open>expires\<close> minus \<open>now\<close>, in seconds, whenever the stored data
  has an \<open>expires\<close>.
\<close>

theorem C6_set_lifetime:
  "(let m = chosenMaxAge h opts now s;
        d' = (case data of None \<Rightarrow> emptyData | Some x \<Rightarrow> x)
               \<lparr>expires := Some (maxAgeToDateOfExpiry h now m)\<rparr>;
        r = session_set h opts now data s
    in sessionData (snd r) = Some d' \<and>
       payload d' = (case data of None \<Rightarrow> [] | Some x \<Rightarrow> payload x) \<and>
       (\<forall>s0 rest ct.
          secrets opts = s0 # rest \<and> encrypt h (Some d') (secret s0) = Some ct \<longrightarrow>
          r = (Inr d', s\<lparr>sessionData := Some d', shouldSendToClient := True,
                          setCookie := Some (serializeArgs opts (ct @ marker @ toString h (id_s s0))
                                               (Some m) None)\<rparr>)) \<and>
       (sessionData s = None \<longrightarrow> m = maxAge (cookie opts)) \<and>
       (\<forall>d. sessionData s = Some d \<and> expires d = None \<longrightarrow> m = maxAge (cookie opts)) \<and>
       (\<forall>d e. sessionData s = Some d \<and> expires d = Some e \<longrightarrow> m = remainingSeconds h e now))"
proof -
  let ?m = "chosenMaxAge h opts now s"
  let ?d = "(case data of None \<Rightarrow> emptyData | Some x \<Rightarrow> x)
              \<lparr>expires := Some (maxAgeToDateOfExpiry h now ?m)\<rparr>"
  have a: "sessionData (snd (session_set h opts now data s)) = Some ?d"
    by (rule session_set_stored)
  have b: "payload ?d = (case data of None \<Rightarrow> [] | Some x \<Rightarrow> payload x)"
    by (simp add: emptyData_def split: option.splits)
  have c: "session_set h opts now data s
             = (Inr ?d, s\<lparr>sessionData := Some ?d, shouldSendToClient := True,
                           setCookie := Some (serializeArgs opts (ct @ marker @ toString h (id_s s0))
                                                (Some ?m) None)\<rparr>)"
    if "secrets opts = s0 # rest" "encrypt h (Some ?d) (secret s0) = Some ct" for s0 rest ct
    using session_set_ok[OF that(1) refl that(2)] .
  have d: "sessionData s = None \<longrightarrow> ?m = maxAge (cookie opts)"
    by (simp add: chosenMaxAge_def)
  have e: "\<forall>x. sessionData s = Some x \<and> expires x = None \<longrightarrow> ?m = maxAge (cookie opts)"
    by (simp add: chosenMaxAge_def)
  have f: "\<forall>x e. sessionData s = Some x \<and> expires x = Some e \<longrightarrow> ?m = remainingSeconds h e now"
    by (simp add: chosenMaxAge_def)
  show ?thesis
    unfolding Let_def
    using a b c d e f by blast
qed

theorem C6_set_lifetime_witness:
  "session_set demoPrims (demoOptions (RollingBool False)) 1700000000000
      (Some \<lparr>payload = [(''role'', ''guest'')], expires = None\<rparr>)
      ((initialState ''new/live'')\<lparr>sessionData := Some (demoData (Some 1700003600000))\<rparr>)
     = (Inr \<lparr>payload = [(''role'', ''guest'')], expires = Some 1700003600000\<rparr>,
        (initialState ''new/live'')
          \<lparr>sessionData := Some \<lparr>payload = [(''role'', ''guest'')], expires = Some 1700003600000\<rparr>,
            shouldSendToClient := True,
            setCookie := Some (serializeArgs (demoOptions (RollingBool False)) ''new/live&id=2''
                                 (Some 3600) None)\<rparr>) \<and>
   session_set demoPrims (demoOptions (RollingBool False)) 1700000000000
      (Some \<lparr>payload = [(''role'', ''guest'')], expires = None\<rparr>) (initialState '''')
     = (Inr \<lparr>payload = [(''role'', ''guest'')], expires = Some 1700604800000\<rparr>,
        (initialState '''')
          \<lparr>sessionData := Some \<lparr>payload = [(''role'', ''guest'')], expires = Some 1700604800000\<rparr>,
            shouldSendToClient := True,
            setCookie := Some (serializeArgs (demoOptions (RollingBool False)) ''new/misc&id=2''
                                 (Some 604800) None)\<rparr>) \<and>
   session_set demoPrims (demoOptions (RollingBool False)) 1700000000000
      (Some \<lparr>payload = [(''role'', ''guest'')], expires = None\<rparr>)
      ((initialState ''new/bare'')\<lparr>sessionData := Some (demoData None)\<rparr>)
     = (Inr \<lparr>payload = [(''role'', ''guest'')], expires = Some 1700604800000\<rparr>,
        (initialState ''new/bare'')
          \<lparr>sessionData := Some \<lparr>payload = [(''role'', ''guest'')], expires = Some 1700604800000\<rparr>,
            shouldSendToClient := True,
            setCookie := Some (serializeArgs (demoOptions (RollingBool False)) ''new/misc&id=2''
                                 (Some 604800) None)\<rparr>)"
proof -
  let ?O = "demoOptions (RollingBool False)"
  let ?L = "(initialState ''new/live'')\<lparr>sessionData := Some (demoData (Some 1700003600000))\<rparr>"
  let ?B = "(initialState ''new/bare'')\<lparr>sessionData := Some (demoData None)\<rparr>"
  let ?g = "\<lparr>payload = [(''role'', ''guest'')], expires = None\<rparr> :: string sessionDataWithExpires"
  have mB: "chosenMaxAge demoPrims ?O 1700000000000 ?B = 604800"
    by (simp add: chosenMaxAge_def demoData_def demo_default_maxAge)
  have mL: "chosenMaxAge demoPrims ?O 1700000000000 ?L = 3600"
    by (simp add: chosenMaxAge_def demoData_def remainingSeconds_def)
  have mE: "chosenMaxAge demoPrims ?O 1700000000000 (initialState '''' :: string state) = 604800"
    by (simp add: chosenMaxAge_def initialState_def demo_default_maxAge)
  have eL: "maxAgeToDateOfExpiry demoPrims 1700000000000 3600 = 1700003600000"
    by (simp add: maxAgeToDateOfExpiry_def js_trunc_def)
  have encL: "encrypt demoPrims (Some \<lparr>payload = [(''role'', ''guest'')], expires = Some 1700003600000\<rparr>)
                ''new'' = Some ''new/live''"
    by (simp add: demoPrims_def demoTag_def)
  have encE: "encrypt demoPrims (Some \<lparr>payload = [(''role'', ''guest'')], expires = Some 1700604800000\<rparr>)
                ''new'' = Some ''new/misc''"
    by (simp add: demoPrims_def demoTag_def)
  have ts: "toString demoPrims 2 = ''2''" by (simp add: demoPrims_def)
  have A: "session_set demoPrims ?O 1700000000000 (Some ?g) ?L
     = (Inr \<lparr>payload = [(''role'', ''guest'')], expires = Some 1700003600000\<rparr>,
        (initialState ''new/live'')
          \<lparr>sessionData := Some \<lparr>payload = [(''role'', ''guest'')], expires = Some 1700003600000\<rparr>,
            shouldSendToClient := True,
            setCookie := Some (serializeArgs ?O ''new/live&id=2'' (Some 3600) None)\<rparr>)"
    using C6_set_lifetime[where h = demoPrims and opts = ?O and now = 1700000000000
            and s = ?L and data = "Some ?g"]
    by (simp add: Let_def mL eL demo_ring encL ts marker_def)
  have B: "session_set demoPrims ?O 1700000000000 (Some ?g) (initialState '''')
     = (Inr \<lparr>payload = [(''role'', ''guest'')], expires = Some 1700604800000\<rparr>,
        (initialState '''')
          \<lparr>sessionData := Some \<lparr>payload = [(''role'', ''guest'')], expires = Some 1700604800000\<rparr>,
            shouldSendToClient := True,
            setCookie := Some (serializeArgs ?O ''new/misc&id=2'' (Some 604800) None)\<rparr>)"
    using C6_set_lifetime[where h = demoPrims and opts = ?O and now = 1700000000000
            and s = "initialState ''''" and data = "Some ?g"]
    by (simp add: Let_def mE demo_expiry_week demo_ring encE ts marker_def)
  have C: "session_set demoPrims ?O 1700000000000 (Some ?g) ?B
     = (Inr \<lparr>payload = [(''role'', ''guest'')], expires = Some 1700604800000\<rparr>,
        (initialState ''new/bare'')
          \<lparr>sessionData := Some \<lparr>payload = [(''role'', ''guest'')], expires = Some 1700604800000\<rparr>,
            shouldSendToClient := True,
            setCookie := Some (serializeArgs ?O ''new/misc&id=2'' (Some 604800) None)\<rparr>)"
    using C6_set_lifetime[where h = demoPrims and opts = ?O and now = 1700000000000
            and s = ?B and data = "Some ?g"]
    by (simp add: Let_def mB demo_expiry_week demo_ring encE ts marker_def)
  from A B C show ?thesis by simp
qed

text \<open>
  For a stored session that expired one second ago, \<open>set\<close> uses the max-age -1 and
  not the configured 604800 seconds.
\<close>

theorem C6_set_lifetime_counterexample:
  "initializeSession demoPrims (demoOptions (RollingBool False)) 1700000000000 ''new/dead&id=2''
     = (Inr (), deadState) \<and>
   session_data deadState = emptyData \<and>
   maxAge (cookie (demoOptions (RollingBool False))) = 604800 \<and>
   session_set demoPrims (demoOptions (RollingBool False)) 1700000000000
      (Some \<lparr>payload = [(''role'', ''guest'')], expires = None\<rparr>) deadState
     = (Inr \<lparr>payload = [(''role'', ''guest'')], expires = Some 1699999999000\<rparr>,
        deadState
          \<lparr>sessionData := Some \<lparr>payload = [(''role'', ''guest'')], expires = Some 1699999999000\<rparr>,
            shouldSendToClient := True,
            setCookie := Some (serializeArgs (demoOptions (RollingBool False)) ''new/dead&id=2''
                                 (Some (- 1)) None)\<rparr>)"
proof -
  let ?O = "demoOptions (RollingBool False)"
  have m: "chosenMaxAge demoPrims ?O 1700000000000 deadState = - 1"
    by (simp add: chosenMaxAge_def deadState_def demoData_def remainingSeconds_def)
  have e: "maxAgeToDateOfExpiry demoPrims 1700000000000 (- 1) = 1699999999000"
    by (simp add: maxAgeToDateOfExpiry_def js_trunc_def)
  have enc: "encrypt demoPrims (Some \<lparr>payload = [(''role'', ''guest'')], expires = Some 1699999999000\<rparr>)
               ''new'' = Some ''new/dead''"
    by (simp add: demoPrims_def demoTag_def)
  have ts: "toString demoPrims 2 = ''2''" by (simp add: demoPrims_def)
  have st: "session_set demoPrims ?O 1700000000000
      (Some \<lparr>payload = [(''role'', ''guest'')], expires = None\<rparr>) deadState
     = (Inr \<lparr>payload = [(''role'', ''guest'')], expires = Some 1699999999000\<rparr>,
        deadState
          \<lparr>sessionData := Some \<lparr>payload = [(''role'', ''guest'')], expires = Some 1699999999000\<rparr>,
            shouldSendToClient := True,
            setCookie := Some (serializeArgs ?O ''new/dead&id=2'' (Some (- 1)) None)\<rparr>)"
    using session_set_ok[where opts = ?O and h = demoPrims and now = 1700000000000
            and s = deadState and ct = "''new/dead''"
            and data = "Some \<lparr>payload = [(''role'', ''guest'')], expires = None\<rparr>",
            OF demo_ring refl]
    by (simp add: m e ts marker_def enc)
  have inv: "invalidDate deadState" by (simp add: deadState_def)
  from demo_dead_init st inv show ?thesis
    by (simp add: session_data_invalid demo_default_maxAge)
qed

subsection \<open>The reserved key\<close>

lemma session_update_ok:
  assumes "secrets opts = s0 # rest"
    and "m = chosenMaxAge h opts now (s\<lparr>sessionData := map_option (inPlace f) (sessionData s)\<rparr>)"
    and "d' = (returned f (sessionData s))\<lparr>expires := Some (maxAgeToDateOfExpiry h now m)\<rparr>"
    and "encrypt h (Some d') (secret s0) = Some ct"
  shows "session_update h opts now f s =
     (Inr d', s\<lparr>sessionData := Some d', shouldSendToClient := True,
                setCookie := Some (serializeArgs opts (ct @ marker @ toString h (id_s s0))
                                     (Some m) None)\<rparr>)"
  using assms
  by (simp add: session_update_def Let_def
      makeCookie_live[where ?s0.0 = s0 and rest = rest and ct = ct])

lemma encode_setCookie [simp]: "encode h opts (s\<lparr>setCookie := x\<rparr>) = encode h opts s"
  by (simp add: encode_def split: list.splits)











subsection \<open>Rolling refresh\<close>

lemma initializeSession_rolling:
  "initializeSession h opts now c
     = rollingRefresh h opts now (snd (getSessionData h opts now (initialState c)))"
proof -
  obtain v where "fst (getSessionData h opts now (initialState c)) = Inr v"
    using getSessionData_no_throw[of h opts now "initialState c"] by blast
  then show ?thesis
    by (cases "getSessionData h opts now (initialState c)") (simp add: initializeSession_def)
qed

lemma demo_edge_round: "round (remainingSeconds demoPrims 1700060479600 1700000000000) = 60480"
  by (simp add: remainingSeconds_def round_def, rule floor_unique, simp_all)

lemma demo_edge_decode:
  "getSessionData demoPrims (demoOptions r) 1700000000000 (initialState ''new/edge&id=2'')
     = (Inr (Some (demoData (Some 1700060479600))),
        (initialState ''new/edge'')\<lparr>sessionData := Some (demoData (Some 1700060479600))\<rparr>)"
proof -
  have p: "payloadPart ''new/edge&id=2'' = ''new/edge''"
    and i: "idPart ''new/edge&id=2'' = Some ''2''"
    by (simp_all add: payloadPart_def idPart_def marker_def)
  have id2: "decodeID demoPrims ''new/edge&id=2'' = Some 2"
    by (simp add: decodeID_def i demoPrims_def)
  have res: "resolveSecret demoPrims (demoOptions r) ''new/edge&id=2''
               = Some \<lparr>id_s = 2, secret = ''new''\<rparr>"
    by (simp add: resolveSecret_def id2 demo_ring)
  have d: "decrypt demoPrims ''new/edge'' ''new'' = Some (demoData (Some 1700060479600))"
    by (simp add: demoPrims_def)
  have ic: "sessionCookie (initialState ''new/edge&id=2'') = ''new/edge&id=2''"
    by (simp add: initialState_def)
  show ?thesis
    using getSessionData_decrypted[OF ic _ res _ demo_ring, of "demoData (Some 1700060479600)"
            1700000000000]
    by (simp add: p d id2 Let_def checkSessionExpiry_def initialState_def demoData_def)
qed

lemma demo_bare_decode:
  "getSessionData demoPrims (demoOptions r) 1700000000000 (initialState ''new/bare&id=2'')
     = (Inr (Some (demoData None)),
        (initialState ''new/bare'')\<lparr>sessionData := Some (demoData None)\<rparr>)"
proof -
  have p: "payloadPart ''new/bare&id=2'' = ''new/bare''"
    and i: "idPart ''new/bare&id=2'' = Some ''2''"
    by (simp_all add: payloadPart_def idPart_def marker_def)
  have id2: "decodeID demoPrims ''new/bare&id=2'' = Some 2"
    by (simp add: decodeID_def i demoPrims_def)
  have res: "resolveSecret demoPrims (demoOptions r) ''new/bare&id=2''
               = Some \<lparr>id_s = 2, secret = ''new''\<rparr>"
    by (simp add: resolveSecret_def id2 demo_ring)
  have d: "decrypt demoPrims ''new/bare'' ''new'' = Some (demoData None)"
    by (simp add: demoPrims_def)
  have ic: "sessionCookie (initialState ''new/bare&id=2'') = ''new/bare&id=2''"
    by (simp add: initialState_def)
  show ?thesis
    using getSessionData_decrypted[OF ic _ res _ demo_ring, of "demoData None" 1700000000000]
    by (simp add: p d id2 Let_def checkSessionExpiry_def initialState_def demoData_def)
qed

lemma demo_live_decode:
  "getSessionData demoPrims (demoOptions r) 1700000000000 (initialState ''new/live&id=2'')
     = (Inr (Some (demoData (Some 1700003600000))),
        (initialState ''new/live'')\<lparr>sessionData := Some (demoData (Some 1700003600000))\<rparr>)"
proof -
  have id2: "decodeID demoPrims ''new/live&id=2'' = Some 2"
    by (simp add: decodeID_def demo_parts demoPrims_def)
  have res: "resolveSecret demoPrims (demoOptions r) ''new/live&id=2''
               = Some \<lparr>id_s = 2, secret = ''new''\<rparr>"
    by (simp add: resolveSecret_def id2 demo_ring)
  have d: "decrypt demoPrims ''new/live'' ''new'' = Some (demoData (Some 1700003600000))"
    by (simp add: demoPrims_def)
  have ic: "sessionCookie (initialState ''new/live&id=2'') = ''new/live&id=2''"
    by (simp add: initialState_def)
  show ?thesis
    using getSessionData_decrypted[OF ic _ res _ demo_ring, of "demoData (Some 1700003600000)"
            1700000000000]
    by (simp add: demo_parts d id2 Let_def checkSessionExpiry_def initialState_def demoData_def)
qed

text \<open>
  Claim C7 (the rolling refresh decision), as the code has it. Initialization is the
  decoding followed by the rolling step, on every request. The step does nothing when
  \<open>rolling\<close> is \<open>false\<close> or 0, and nothing when no session data is stored. When \<open>rolling\<close>
  is \<open>true\<close> it calls \<open>refresh\<close> without override. When \<open>rolling\<close> is a number \<open>p\<close> other
  than 0 and the stored data has an \<open>expires\<close>, it calls \<open>refresh\<close> exactly when the
  remaining lifetime in seconds, as the arithmetic of the host computes it and
  \<^verbatim>\<open>Math.round\<close> rounds it to an integer, is less than \<open>p / 100\<close> times the configured
  max-age, as the same arithmetic computes it; otherwise it leaves the state as it
  is. When the stored data has no \<open>expires\<close> it calls \<open>refresh\<close>. Whether the stored
  \<open>expires\<close> has passed is not asked.
\<close>

theorem C7_rolling_refresh:
  "initializeSession h opts now c
     = rollingRefresh h opts now (snd (getSessionData h opts now (initialState c))) \<and>
   (\<not> rollingActive (rolling opts) \<longrightarrow> rollingRefresh h opts now s = (Inr (), s)) \<and>
   (sessionData s = None \<longrightarrow> rollingRefresh h opts now s = (Inr (), s)) \<and>
   (rolling opts = RollingBool True \<longrightarrow>
      rollingRefresh h opts now s = dropValue (session_refresh h opts now None s)) \<and>
   (\<forall>p e. rolling opts = RollingNum p \<and> p \<noteq> 0 \<and> storedExpires s = Some e \<longrightarrow>
      rollingRefresh h opts now s
        = (if of_int (round (remainingSeconds h e now))
                < fmul h (fdiv h p 100) (maxAge (cookie opts))
           then dropValue (session_refresh h opts now None s)
           else (Inr (), s))) \<and>
   (\<forall>p. rolling opts = RollingNum p \<and> p \<noteq> 0 \<and> storedExpires s = None \<longrightarrow>
      rollingRefresh h opts now s = dropValue (session_refresh h opts now None s)) \<and>
   (rollingActive (rolling opts)
      = (rolling opts = RollingBool True \<or> (\<exists>p. rolling opts = RollingNum p \<and> p \<noteq> 0)))"
proof (intro conjI impI allI)
  show "initializeSession h opts now c
          = rollingRefresh h opts now (snd (getSessionData h opts now (initialState c)))"
    by (rule initializeSession_rolling)
next
  assume "\<not> rollingActive (rolling opts)"
  then show "rollingRefresh h opts now s = (Inr (), s)" by (rule rollingRefresh_inactive)
next
  assume "sessionData s = None"
  then show "rollingRefresh h opts now s = (Inr (), s)" by (rule rollingRefresh_no_data)
next
  assume "rolling opts = RollingBool True"
  then show "rollingRefresh h opts now s = dropValue (session_refresh h opts now None s)"
    by (simp add: rollingRefresh_def rollingActive_def)
next
  fix p e
  assume "rolling opts = RollingNum p \<and> p \<noteq> 0 \<and> storedExpires s = Some e"
  then show "rollingRefresh h opts now s
        = (if of_int (round (remainingSeconds h e now))
                < fmul h (fdiv h p 100) (maxAge (cookie opts))
           then dropValue (session_refresh h opts now None s)
           else (Inr (), s))"
    by (simp add: rollingRefresh_def rollingActive_def Let_def)
next
  fix p
  assume "rolling opts = RollingNum p \<and> p \<noteq> 0 \<and> storedExpires s = None"
  then show "rollingRefresh h opts now s = dropValue (session_refresh h opts now None s)"
    by (simp add: rollingRefresh_def rollingActive_def)
next
  show "rollingActive (rolling opts)
          = (rolling opts = RollingBool True \<or> (\<exists>p. rolling opts = RollingNum p \<and> p \<noteq> 0))"
    by (cases "rolling opts") (auto simp: rollingActive_def)
qed

theorem C7_rolling_refresh_witness:
  "initializeSession demoPrims (demoOptions (RollingNum 10)) 1700000000000 ''new/live&id=2''
     = (Inr (),
        (initialState ''new/live'')
          \<lparr>sessionData := Some (demoData (Some 1700604800000)),
            setCookie := Some (serializeArgs (demoOptions (RollingNum 10)) ''new/misc&id=2''
                                 (Some 604800) None),
            shouldSendToClient := True\<rparr>) \<and>
   initializeSession demoPrims (demoOptions (RollingNum 10)) 1700000000000 ''new/edge&id=2''
     = (Inr (), (initialState ''new/edge'')\<lparr>sessionData := Some (demoData (Some 1700060479600))\<rparr>) \<and>
   initializeSession demoPrims (demoOptions (RollingBool True)) 1700000000000 ''new/edge&id=2''
     = (Inr (),
        (initialState ''new/edge'')
          \<lparr>sessionData := Some (demoData (Some 1700604800000)),
            setCookie := Some (serializeArgs (demoOptions (RollingBool True)) ''new/misc&id=2''
                                 (Some 604800) None),
            shouldSendToClient := True\<rparr>) \<and>
   initializeSession demoPrims (demoOptions (RollingBool False)) 1700000000000 ''new/live&id=2''
     = (Inr (), (initialState ''new/live'')\<lparr>sessionData := Some (demoData (Some 1700003600000))\<rparr>) \<and>
   initializeSession demoPrims (demoOptions (RollingBool True)) 1700000000000 ''''
     = (Inr (), initialState '''') \<and>
   initializeSession demoPrims (demoOptions (RollingNum 10)) 1700000000000 ''new/bare&id=2''
     = (Inr (),
        (initialState ''new/bare'')
          \<lparr>sessionData := Some (demoData (Some 1700604800000)),
            setCookie := Some (serializeArgs (demoOptions (RollingNum 10)) ''new/misc&id=2''
                                 (Some 604800) None),
            shouldSendToClient := True\<rparr>)"
proof -
  let ?L = "(initialState ''new/live'')\<lparr>sessionData := Some (demoData (Some 1700003600000))\<rparr>"
  let ?E = "(initialState ''new/edge'')\<lparr>sessionData := Some (demoData (Some 1700060479600))\<rparr>"
  let ?B = "(initialState ''new/bare'')\<lparr>sessionData := Some (demoData None)\<rparr>"
  let ?N = "initialState '''' :: string state"
  have seB: "storedExpires ?B = None"
    by (simp add: storedExpires_def demoData_def)
  have refB: "session_refresh demoPrims (demoOptions r) 1700000000000 None ?B
     = (Inr True,
        (initialState ''new/bare'')
          \<lparr>sessionData := Some (demoData (Some 1700604800000)),
            setCookie := Some (serializeArgs (demoOptions r) ''new/misc&id=2'' (Some 604800) None),
            shouldSendToClient := True\<rparr>)" for r
    using demo_live_state_refresh[where r = r and c = "''new/bare''" and e = None and b = False]
    by (simp add: initialState_def)
  have noneN: "sessionData ?N = None" by (simp add: initialState_def)
  have decN: "getSessionData demoPrims (demoOptions r) 1700000000000 ?N = (Inr None, ?N)" for r
    by (simp add: getSessionData_empty initialState_def demo_parts)
  have off: "\<not> rollingActive (rolling (demoOptions (RollingBool False)))"
    by (simp add: rollingActive_def demoOptions_def)
  have roll: "rolling (demoOptions r) = r" for r by (simp add: demoOptions_def)
  have seL: "storedExpires ?L = Some 1700003600000"
    by (simp add: storedExpires_def demoData_def)
  have seE: "storedExpires ?E = Some 1700060479600"
    by (simp add: storedExpires_def demoData_def)
  have rL: "round (remainingSeconds demoPrims 1700003600000 1700000000000) = 3600"
    by (simp add: remainingSeconds_def)
  note rE = demo_edge_round
  have refL: "session_refresh demoPrims (demoOptions r) 1700000000000 None ?L
     = (Inr True,
        (initialState ''new/live'')
          \<lparr>sessionData := Some (demoData (Some 1700604800000)),
            setCookie := Some (serializeArgs (demoOptions r) ''new/misc&id=2'' (Some 604800) None),
            shouldSendToClient := True\<rparr>)" for r
    using demo_live_state_refresh[where r = r and c = "''new/live''" and e = "Some 1700003600000"
            and b = False]
    by (simp add: initialState_def)
  have refE: "session_refresh demoPrims (demoOptions r) 1700000000000 None ?E
     = (Inr True,
        (initialState ''new/edge'')
          \<lparr>sessionData := Some (demoData (Some 1700604800000)),
            setCookie := Some (serializeArgs (demoOptions r) ''new/misc&id=2'' (Some 604800) None),
            shouldSendToClient := True\<rparr>)" for r
    using demo_live_state_refresh[where r = r and c = "''new/edge''" and e = "Some 1700060479600"
            and b = False]
    by (simp add: initialState_def)
  have A: "initializeSession demoPrims (demoOptions (RollingNum 10)) 1700000000000 ''new/live&id=2''
     = (Inr (),
        (initialState ''new/live'')
          \<lparr>sessionData := Some (demoData (Some 1700604800000)),
            setCookie := Some (serializeArgs (demoOptions (RollingNum 10)) ''new/misc&id=2''
                                 (Some 604800) None),
            shouldSendToClient := True\<rparr>)"
    using C7_rolling_refresh[of demoPrims "demoOptions (RollingNum 10)" 1700000000000
            "''new/live&id=2''" ?L]
    by (simp add: demo_live_decode roll seL rL demo_default_maxAge refL dropValue_def)
  have B: "initializeSession demoPrims (demoOptions (RollingNum 10)) 1700000000000 ''new/edge&id=2''
     = (Inr (), ?E)"
    using C7_rolling_refresh[of demoPrims "demoOptions (RollingNum 10)" 1700000000000
            "''new/edge&id=2''" ?E]
    by (simp add: demo_edge_decode roll seE rE demo_default_maxAge)
  have C: "initializeSession demoPrims (demoOptions (RollingBool True)) 1700000000000 ''new/edge&id=2''
     = (Inr (),
        (initialState ''new/edge'')
          \<lparr>sessionData := Some (demoData (Some 1700604800000)),
            setCookie := Some (serializeArgs (demoOptions (RollingBool True)) ''new/misc&id=2''
                                 (Some 604800) None),
            shouldSendToClient := True\<rparr>)"
    using C7_rolling_refresh[of demoPrims "demoOptions (RollingBool True)" 1700000000000
            "''new/edge&id=2''" ?E]
    by (simp add: demo_edge_decode roll refE dropValue_def)
  have D: "initializeSession demoPrims (demoOptions (RollingBool False)) 1700000000000
             ''new/live&id=2'' = (Inr (), ?L)"
    using C7_rolling_refresh[of demoPrims "demoOptions (RollingBool False)" 1700000000000
            "''new/live&id=2''" ?L] off
    by (simp add: demo_live_decode)
  have E: "initializeSession demoPrims (demoOptions (RollingBool True)) 1700000000000 ''''
             = (Inr (), ?N)"
    using C7_rolling_refresh[of demoPrims "demoOptions (RollingBool True)" 1700000000000
            "''''" ?N] noneN
    by (simp add: decN)
  have F: "initializeSession demoPrims (demoOptions (RollingNum 10)) 1700000000000 ''new/bare&id=2''
     = (Inr (),
        (initialState ''new/bare'')
          \<lparr>sessionData := Some (demoData (Some 1700604800000)),
            setCookie := Some (serializeArgs (demoOptions (RollingNum 10)) ''new/misc&id=2''
                                 (Some 604800) None),
            shouldSendToClient := True\<rparr>)"
    using C7_rolling_refresh[of demoPrims "demoOptions (RollingNum 10)" 1700000000000
            "''new/bare&id=2''" ?B]
    by (simp add: demo_bare_decode roll seB refB dropValue_def)
  from A B C D E F show ?thesis by simp
qed

text \<open>
  With \<open>rolling = 10\<close> and the configured max-age of 604800 seconds the threshold is
  60480 seconds. A session with 60479.6 seconds left is below it, but its remaining
  lifetime rounds to 60480 and it is not refreshed. And with \<open>rolling = true\<close> the
  session that expired one second ago, for which the \<open>data\<close> accessor returns the empty
  payload, is refreshed: its expiry is renewed and a cookie that lives 604800 seconds
  is sent.
\<close>

theorem C7_rolling_refresh_counterexample:
  "rolling (demoOptions (RollingNum 10)) = RollingNum 10 \<and>
   maxAge (cookie (demoOptions (RollingNum 10))) = 604800 \<and>
   (1700000000000 :: int) < 1700060479600 \<and>
   (of_int (1700060479600 - 1700000000000) :: rat) / 1000 < (10 / 100) * 604800 \<and>
   getSessionData demoPrims (demoOptions (RollingNum 10)) 1700000000000
       (initialState ''new/edge&id=2'')
     = (Inr (Some (demoData (Some 1700060479600))),
        (initialState ''new/edge'')\<lparr>sessionData := Some (demoData (Some 1700060479600))\<rparr>) \<and>
   initializeSession demoPrims (demoOptions (RollingNum 10)) 1700000000000 ''new/edge&id=2''
     = (Inr (), (initialState ''new/edge'')\<lparr>sessionData := Some (demoData (Some 1700060479600))\<rparr>) \<and>
   setCookie (snd (initializeSession demoPrims (demoOptions (RollingNum 10)) 1700000000000
                     ''new/edge&id=2'')) = None \<and>
   (1699999999000 :: int) < 1700000000000 \<and>
   getSessionData demoPrims (demoOptions (RollingBool True)) 1700000000000
       (initialState ''new/dead&id=2'')
     = (Inr (Some (demoData (Some 1699999999000))), deadState) \<and>
   session_data deadState = emptyData \<and>
   initializeSession demoPrims (demoOptions (RollingBool True)) 1700000000000 ''new/dead&id=2''
     = (Inr (),
        deadState
          \<lparr>sessionData := Some (demoData (Some 1700604800000)),
            setCookie := Some (serializeArgs (demoOptions (RollingBool True)) ''new/misc&id=2''
                                 (Some 604800) None),
            shouldSendToClient := True\<rparr>)"
proof -
  let ?O = "demoOptions (RollingNum 10)"
  let ?T = "demoOptions (RollingBool True)"
  let ?E = "(initialState ''new/edge'')\<lparr>sessionData := Some (demoData (Some 1700060479600))\<rparr>"
  have roll: "rolling ?O = RollingNum 10" by (simp add: demoOptions_def)
  have rollT: "rolling ?T = RollingBool True" by (simp add: demoOptions_def)
  have rem: "(of_int (1700060479600 - 1700000000000) :: rat) / 1000 < (10 / 100) * 604800"
    by simp
  note rE = demo_edge_round
  have seE: "storedExpires ?E = Some 1700060479600"
    by (simp add: storedExpires_def demoData_def)
  have rr: "rollingRefresh demoPrims ?O 1700000000000 ?E = (Inr (), ?E)"
    by (simp add: rollingRefresh_def rollingActive_def roll seE rE demo_default_maxAge)
  have init: "initializeSession demoPrims ?O 1700000000000 ''new/edge&id=2'' = (Inr (), ?E)"
    by (simp add: initializeSession_def demo_edge_decode rr)
  have sc: "setCookie ?E = None" by (simp add: initialState_def)
  have inv: "invalidDate deadState" by (simp add: deadState_def)
  have refD: "session_refresh demoPrims ?T 1700000000000 None deadState
     = (Inr True,
        deadState
          \<lparr>sessionData := Some (demoData (Some 1700604800000)),
            setCookie := Some (serializeArgs ?T ''new/misc&id=2'' (Some 604800) None),
            shouldSendToClient := True\<rparr>)"
    using demo_live_state_refresh[where r = "RollingBool True" and c = "''new/dead''"
            and e = "Some 1699999999000" and b = True]
    by (simp add: deadState_def)
  have rrD: "rollingRefresh demoPrims ?T 1700000000000 deadState
     = (Inr (),
        deadState
          \<lparr>sessionData := Some (demoData (Some 1700604800000)),
            setCookie := Some (serializeArgs ?T ''new/misc&id=2'' (Some 604800) None),
            shouldSendToClient := True\<rparr>)"
    by (simp add: rollingRefresh_def rollingActive_def rollT refD dropValue_def)
  have initD: "initializeSession demoPrims ?T 1700000000000 ''new/dead&id=2''
     = (Inr (),
        deadState
          \<lparr>sessionData := Some (demoData (Some 1700604800000)),
            setCookie := Some (serializeArgs ?T ''new/misc&id=2'' (Some 604800) None),
            shouldSendToClient := True\<rparr>)"
    by (simp add: initializeSession_def demo_dead_decode rrD)
  from roll rem init sc inv initD show ?thesis
    by (simp add: demo_default_maxAge demo_edge_decode demo_dead_decode session_data_invalid)
qed

end
